theory Spec2Isabelle
  imports Complex_Main "HOL-Library.Word" "HOL-Library.Sublist"
begin

section \<open>Message processing of rspamd: a shallow embedding of message.c\<close>

text \<open>
  The theory follows \<^verbatim>\<open>message.c\<close> (the file \<^verbatim>\<open>src/unnamed/part_000\<close>): the
  edit distance over token hashes, the GTUBE check, the extraction of words and hashes,
  the processing of one text part and the orchestrator \<^verbatim>\<open>rspamd_message_parse\<close>.
  Byte buffers are \<^typ>\<open>string\<close>s (lists of 8-bit characters), a \<^verbatim>\<open>guint\<close> is a
  \<^typ>\<open>32 word\<close>, a \<^verbatim>\<open>guint64\<close> a \<^typ>\<open>64 word\<close>, a pointer that may be
  \<^verbatim>\<open>NULL\<close> is an \<^typ>\<open>'a option\<close>, and a flag word is the set of the flags
  that are set in it.
\<close>

subsection \<open>Logging\<close>

text \<open>
  The logging macros \<^verbatim>\<open>msg_err_task\<close>, \<^verbatim>\<open>msg_warn_task\<close>,
  \<^verbatim>\<open>msg_info_task\<close> and \<^verbatim>\<open>debug_task\<close>/\<^verbatim>\<open>msg_debug_task\<close> append an
  entry to the log: its level and its format string.
\<close>

datatype log_level = LOG_ERR | LOG_WARN | LOG_INFO | LOG_DEBUG

type_synonym log_entry = "log_level \<times> string"

type_synonym guint = "32 word"

type_synonym guint64 = "64 word"

subsection \<open>The edit distance over token hashes\<close>

text \<open>The macro \<^verbatim>\<open>MIN3\<close>, on unsigned values.\<close>

definition MIN3 :: "guint \<Rightarrow> guint \<Rightarrow> guint \<Rightarrow> guint" where
  "MIN3 a b c = (if a < b then (if a < c then a else c) else (if b < c then b else c))"

text \<open>The field \<^verbatim>\<open>len\<close> of a \<^verbatim>\<open>GArray\<close> is a \<^verbatim>\<open>guint\<close>.\<close>

definition garray_len :: "'a list \<Rightarrow> guint" where
  "garray_len xs = of_nat (length xs)"

definition max_words :: guint where
  "max_words = 8192"

text \<open>
  The first loop of \<^verbatim>\<open>rspamd_words_levenshtein_distance\<close>:
  \<^verbatim>\<open>for (y = 1; y <= s1len; y++) column[y] = y;\<close>
\<close>

function lev_init_column :: "nat \<Rightarrow> nat \<Rightarrow> guint list \<Rightarrow> guint list" where
  "lev_init_column y s1len column =
     (if y \<le> s1len then lev_init_column (Suc y) s1len (column[y := of_nat y]) else column)"
  by pat_completeness auto
termination
  by (relation "measure (\<lambda>(y, s1len, column). Suc s1len - y)") auto

text \<open>
  The inner loop, over \<^verbatim>\<open>y\<close>, for one \<^verbatim>\<open>x\<close>. The variable \<^verbatim>\<open>eq\<close> is 1 when
  the two hashes are equal and 0 otherwise, and the third argument of \<^verbatim>\<open>MIN3\<close> is
  \<^verbatim>\<open>lastdiag + (eq * 2)\<close>, as in the source.
\<close>

function lev_inner ::
  "guint64 list \<Rightarrow> guint64 list \<Rightarrow> nat \<Rightarrow> nat \<Rightarrow> nat \<Rightarrow> guint \<Rightarrow> guint list \<Rightarrow> guint list" where
  "lev_inner w1 w2 x y s1len lastdiag column =
     (if y \<le> s1len then
        (let olddiag = column ! y;
             h1 = w1 ! (y - 1);
             h2 = w2 ! (x - 1);
             eq = (if h1 = h2 then 1 else 0 :: guint);
             column' = column[y := MIN3 (column ! y + 1) (column ! (y - 1) + 1)
                                        (lastdiag + (eq * 2))]
         in lev_inner w1 w2 x (Suc y) s1len olddiag column')
      else column)"
  by pat_completeness auto
termination
  by (relation "measure (\<lambda>(w1, w2, x, y, s1len, lastdiag, column). Suc s1len - y)") auto

text \<open>The outer loop, over \<^verbatim>\<open>x\<close>.\<close>

function lev_outer ::
  "guint64 list \<Rightarrow> guint64 list \<Rightarrow> nat \<Rightarrow> nat \<Rightarrow> nat \<Rightarrow> guint list \<Rightarrow> guint list" where
  "lev_outer w1 w2 x s1len s2len column =
     (if x \<le> s2len then
        lev_outer w1 w2 (Suc x) s1len s2len
          (lev_inner w1 w2 x 1 s1len (of_nat x - 1) (column[0 := of_nat x]))
      else column)"
  by pat_completeness auto
termination
  by (relation "measure (\<lambda>(w1, w2, x, s1len, s2len, column). Suc s2len - x)") auto

text \<open>
  \<^verbatim>\<open>rspamd_words_levenshtein_distance\<close> returns the distance and the log entries it
  writes. The guard adds the two lengths as \<^verbatim>\<open>guint\<close>s.
\<close>

definition rspamd_words_levenshtein_distance ::
  "guint64 list \<Rightarrow> guint64 list \<Rightarrow> guint \<times> log_entry list" where
  "rspamd_words_levenshtein_distance w1 w2 =
     (let s1len = garray_len w1; s2len = garray_len w2 in
      if s1len + s2len > max_words then
        (0, [(LOG_ERR, ''cannot compare parts with more than %ud words: %ud'')])
      else
        (let column = lev_init_column 1 (unat s1len) (replicate (unat s1len + 1) 0);
             column' = lev_outer w1 w2 1 (unat s1len) (unat s2len) column
         in (column' ! unat s1len, [])))"

text \<open>
  The distance as the specification words it: the edit distance with cost 1 for an
  insertion, 1 for a deletion and 2 for a substitution (and no cost for equal elements).
\<close>

fun levenshtein_spec :: "guint64 list \<Rightarrow> guint64 list \<Rightarrow> nat" where
  "levenshtein_spec [] ys = length ys"
| "levenshtein_spec xs [] = length xs"
| "levenshtein_spec (x # xs) (y # ys) =
     min (min (levenshtein_spec xs (y # ys) + 1) (levenshtein_spec (x # xs) ys + 1))
         (levenshtein_spec xs ys + (if x = y then 0 else 2))"

subsection \<open>The data model\<close>

text \<open>
  The flag constants, the structures and the macros \<^verbatim>\<open>IS_PART_UTF\<close>,
  \<^verbatim>\<open>IS_PART_HTML\<close>, \<^verbatim>\<open>IS_PART_EMPTY\<close>, \<^verbatim>\<open>IS_CT_TEXT\<close> and
  \<^verbatim>\<open>RSPAMD_TASK_IS_EMPTY\<close> are declared in headers that are not among the sources;
  each macro tests one flag. The records hold the fields that \<^verbatim>\<open>message.c\<close> reads
  or writes in the functions embedded here.
\<close>

datatype task_flag =
    RSPAMD_TASK_FLAG_MIME
  | RSPAMD_TASK_FLAG_JSON
  | RSPAMD_TASK_FLAG_LOCAL_CLIENT
  | RSPAMD_TASK_FLAG_EMPTY
  | RSPAMD_TASK_FLAG_SKIP
  | RSPAMD_TASK_FLAG_GTUBE
  | RSPAMD_TASK_FLAG_NO_IP

datatype text_part_flag =
    RSPAMD_MIME_TEXT_PART_FLAG_UTF
  | RSPAMD_MIME_TEXT_PART_FLAG_BALANCED
  | RSPAMD_MIME_TEXT_PART_FLAG_EMPTY
  | RSPAMD_MIME_TEXT_PART_FLAG_HTML

datatype mime_part_flag =
    RSPAMD_MIME_PART_TEXT
  | RSPAMD_MIME_PART_ATTACHEMENT
  | RSPAMD_MIME_PART_IMAGE
  | RSPAMD_MIME_PART_ARCHIVE

datatype content_type_flag =
    RSPAMD_CONTENT_TYPE_VALID
  | RSPAMD_CONTENT_TYPE_BROKEN
  | RSPAMD_CONTENT_TYPE_MULTIPART
  | RSPAMD_CONTENT_TYPE_TEXT
  | RSPAMD_CONTENT_TYPE_MESSAGE

datatype rspamd_cd_type = RSPAMD_CT_UNKNOWN | RSPAMD_CT_INLINE | RSPAMD_CT_ATTACHMENT

datatype rspamd_metric_action =
    METRIC_ACTION_REJECT
  | METRIC_ACTION_SOFT_REJECT
  | METRIC_ACTION_REWRITE_SUBJECT
  | METRIC_ACTION_ADD_HEADER
  | METRIC_ACTION_GREYLIST
  | METRIC_ACTION_NOACTION
  | METRIC_ACTION_MAX

datatype rspamd_exception_type =
    RSPAMD_EXCEPTION_NEWLINE
  | RSPAMD_EXCEPTION_URL
  | RSPAMD_EXCEPTION_GENERIC

record rspamd_process_exception =
  ex_pos :: nat
  ex_len :: nat
  ex_type :: rspamd_exception_type

text \<open>
  A token \<^verbatim>\<open>rspamd_ftok_t\<close>: a length and a pointer. \<open>ftok_begin\<close> holds the bytes
  the pointer \<^verbatim>\<open>begin\<close> points to, of which the first \<open>ftok_len\<close> are the token.
\<close>

record rspamd_ftok_t =
  ftok_len :: nat
  ftok_begin :: string

record rspamd_content_type =
  ct_type :: string
  ct_subtype :: string
  ct_flags :: "content_type_flag set"

record rspamd_content_disposition =
  cd_type :: rspamd_cd_type

record rspamd_mime_header =
  hdr_name :: string
  hdr_value :: string
  hdr_decoded :: string

text \<open>
  The union \<^verbatim>\<open>specific\<close> of a MIME part: nothing (the part is allocated zeroed),
  a text part (the member \<^verbatim>\<open>txt\<close>, as the index of the text part in the task), an
  image or an archive.
\<close>

datatype part_specific = SPECIFIC_NONE | SPECIFIC_TXT nat | SPECIFIC_IMG | SPECIFIC_ARCH

text \<open>
  A MIME part. Pointers between parts are indices: \<open>parent_part\<close> is an index into
  the \<open>parts\<close> of the task. The content type \<^verbatim>\<open>ct\<close> is a pointer:
  \<^verbatim>\<open>IS_CT_TEXT\<close> tests it, the other places dereference it as it is.
\<close>

record rspamd_mime_part =
  ct :: "rspamd_content_type option"
  cd :: "rspamd_content_disposition option"
  raw_data :: string
  parsed_data :: string
  parent_part :: "nat option"
  mp_flags :: "mime_part_flag set"
  specific :: part_specific

text \<open>
  A text part, allocated zeroed: every pointer starts as \<^verbatim>\<open>NULL\<close> (\<open>None\<close>, or
  the empty list for the \<^verbatim>\<open>GList\<close> of exceptions), every number as 0. The HTML tree
  (\<^verbatim>\<open>html\<close>) is written by the HTML processor only and is left out.
\<close>

record rspamd_mime_text_part =
  tp_flags :: "text_part_flag set"
  raw :: string
  parsed :: string
  mime_part :: nat
  content :: "string option"
  exceptions :: "rspamd_process_exception list"
  language :: "string option"
  lang_code :: "string option"
  script :: nat
  stripped_content :: "string option"
  newlines :: "nat list option"
  nlines :: nat
  normalized_words :: "rspamd_ftok_t list option"
  normalized_hashes :: "guint64 list option"

record rspamd_config =
  check_text_attachements :: bool
  allow_raw_input :: bool
  ignore_received :: bool

record rspamd_metric_result =
  mres_score :: real
  mres_action :: rspamd_metric_action

text \<open>A variable of the task's memory pool: the \<^verbatim>\<open>gdouble\<close> or the number stored.\<close>

datatype pool_variable = POOL_DOUBLE real | POOL_UINT guint

text \<open>
  The task. \<open>raw_headers\<close> is the hash table of the headers, as its lookup function;
  \<open>variables\<close> are the variables of the task's pool; \<open>symbols\<close> are the calls of
  \<^verbatim>\<open>rspamd_task_insert_result\<close>; \<open>messages\<close> is the UCL object of the same name.
  The fields written by the parsing of the \<^verbatim>\<open>Received\<close> headers, of the envelope
  and of the recipients, and the digest, are left out: lines 728 to 868 and 935 to 943
  of the orchestrator write those fields only and have no \<^verbatim>\<open>return\<close>.
\<close>

record rspamd_task =
  task_flags :: "task_flag set"
  msg :: string
  cfg :: "rspamd_config option"
  err :: "string option"
  message_id :: "string option"
  queue_id :: "string option"
  subject :: "string option"
  raw_headers :: "string \<Rightarrow> rspamd_mime_header list option"
  parts :: "rspamd_mime_part list"
  text_parts :: "rspamd_mime_text_part list"
  urls :: "string list"
  pre_result_action :: rspamd_metric_action
  pre_result_str :: "string option"
  messages :: "(string \<times> string) list"
  metric_res :: "rspamd_metric_result option"
  symbols :: "(string \<times> real) list"
  variables :: "string \<Rightarrow> pool_variable option"
  log :: "log_entry list"

definition log_add :: "log_entry \<Rightarrow> rspamd_task \<Rightarrow> rspamd_task" where
  "log_add e task = task\<lparr>log := log task @ [e]\<rparr>"

definition IS_PART_UTF :: "rspamd_mime_text_part \<Rightarrow> bool" where
  "IS_PART_UTF part \<longleftrightarrow> RSPAMD_MIME_TEXT_PART_FLAG_UTF \<in> tp_flags part"

definition IS_PART_HTML :: "rspamd_mime_text_part \<Rightarrow> bool" where
  "IS_PART_HTML part \<longleftrightarrow> RSPAMD_MIME_TEXT_PART_FLAG_HTML \<in> tp_flags part"

definition IS_PART_EMPTY :: "rspamd_mime_text_part \<Rightarrow> bool" where
  "IS_PART_EMPTY part \<longleftrightarrow> RSPAMD_MIME_TEXT_PART_FLAG_EMPTY \<in> tp_flags part"

definition IS_CT_TEXT :: "rspamd_content_type option \<Rightarrow> bool" where
  "IS_CT_TEXT c \<longleftrightarrow>
     (case c of None \<Rightarrow> False | Some t \<Rightarrow> RSPAMD_CONTENT_TYPE_TEXT \<in> ct_flags t)"

definition RSPAMD_TASK_IS_EMPTY :: "rspamd_task \<Rightarrow> bool" where
  "RSPAMD_TASK_IS_EMPTY task \<longleftrightarrow> RSPAMD_TASK_FLAG_EMPTY \<in> task_flags task"

subsection \<open>The collaborators\<close>

text \<open>
  Functions that \<^verbatim>\<open>message.c\<close> calls and that are defined elsewhere (the MIME parser,
  the charset conversion, the HTML processor, the tokenizer, the stemmer, the hash, the
  URL extractors, the processing of images and archives, GLib's Unicode tables) are
  parameters, gathered in one record. Each has the footprint of its call: what it is
  given and what it may write.
\<close>

record mime_parse_result =
  mp_ok :: bool
  mp_err :: "string option"
  mp_parts :: "rspamd_mime_part list"
  mp_headers :: "string \<Rightarrow> rspamd_mime_header list option"

record html_result =
  html_content :: string
  html_exceptions :: "rspamd_process_exception list"
  html_urls :: "string list"

record newlines_result =
  nl_stripped :: string
  nl_nlines :: nat
  nl_newlines :: "nat list"

record env =
  rspamd_mime_parse_task :: "rspamd_task \<Rightarrow> mime_parse_result"
  rspamd_mime_message_id_generate :: "string \<Rightarrow> string"
  rspamd_mime_text_part_maybe_convert ::
    "rspamd_task \<Rightarrow> rspamd_mime_text_part \<Rightarrow> bool \<times> string"
  rspamd_html_process_part_full :: "string \<Rightarrow> html_result"
  rspamd_strip_newlines_parse :: "string \<Rightarrow> bool \<Rightarrow> newlines_result"
  rspamd_url_text_extract ::
    "rspamd_task \<Rightarrow> rspamd_mime_text_part \<Rightarrow> string list \<times> rspamd_process_exception list"
  rspamd_tokenize_text ::
    "string \<Rightarrow> bool \<Rightarrow> rspamd_process_exception list \<Rightarrow> rspamd_ftok_t list option"
  WITH_SNOWBALL :: bool
  sb_stemmer_new :: "string \<Rightarrow> (string \<Rightarrow> string option) option"
  rspamd_str_lc :: "string \<Rightarrow> string"
  rspamd_str_lc_utf8 :: "string \<Rightarrow> string"
  rspamd_cryptobox_fast_hash_specific :: "string \<Rightarrow> guint64 \<Rightarrow> guint64"
  rspamd_create_metric_result :: "rspamd_task \<Rightarrow> rspamd_metric_result option"
  rspamd_task_get_required_score :: "rspamd_task \<Rightarrow> rspamd_metric_result \<Rightarrow> real"
  g_utf8_get_char_validated :: "string \<Rightarrow> nat option"
  g_unichar_isalpha :: "nat \<Rightarrow> bool"
  g_unichar_get_script :: "nat \<Rightarrow> nat"
  rspamd_images_process :: "rspamd_task \<Rightarrow> nat list"
  rspamd_archives_process :: "rspamd_task \<Rightarrow> nat list"
  rspamd_url_find_multiple :: "string \<Rightarrow> string list"

subsection \<open>The GTUBE check\<close>

definition gtube_pattern :: string where
  "gtube_pattern = ''XJS*C4JDBQADN1.NSBN3*2IDNEN*GTUBE-STANDARD-ANTI-UBE-TEST-EMAIL*C.34X''"

text \<open>
  \<^verbatim>\<open>sizeof (gtube_pattern)\<close>: the array holds the characters of the literal and the
  terminating NUL.
\<close>

definition sizeof_gtube_pattern :: nat where
  "sizeof_gtube_pattern = length gtube_pattern + 1"

definition max_check_size :: nat where
  "max_check_size = 4 * 1024"

text \<open>
  Modelled from the spec: \<^verbatim>\<open>rspamd_substring_search_twoway\<close> is defined in the string
  utilities, which are not among the sources. The specification calls the test an exact
  substring match; the caller compares the result with -1. The function returns the
  offset of the first occurrence of the pattern in the text, or -1 when there is none.
\<close>

fun substring_search_from :: "nat \<Rightarrow> string \<Rightarrow> string \<Rightarrow> int" where
  "substring_search_from i [] srch = (if srch = [] then int i else - 1)"
| "substring_search_from i (c # cs) srch =
     (if prefix srch (c # cs) then int i else substring_search_from (Suc i) cs srch)"

definition rspamd_substring_search_twoway :: "string \<Rightarrow> string \<Rightarrow> int" where
  "rspamd_substring_search_twoway inp srch = substring_search_from 0 inp srch"

text \<open>
  \<^verbatim>\<open>rspamd_check_gtube\<close> returns the task, with the flags it has set, and its result.
\<close>

definition rspamd_check_gtube :: "rspamd_task \<Rightarrow> rspamd_mime_text_part \<Rightarrow> rspamd_task \<times> bool" where
  "rspamd_check_gtube task part =
     (case content part of
        None \<Rightarrow> (task, False)
      | Some c \<Rightarrow>
          if length c > sizeof_gtube_pattern \<and> length c \<le> max_check_size then
            (if rspamd_substring_search_twoway c gtube_pattern \<noteq> - 1 then
               (log_add (LOG_INFO, ''<%s>: gtube pattern has been found in part of length %ud'')
                  (task\<lparr>task_flags := task_flags task \<union>
                     {RSPAMD_TASK_FLAG_SKIP, RSPAMD_TASK_FLAG_GTUBE}\<rparr>), True)
             else (task, False))
          else (task, False))"

subsection \<open>Language detection\<close>

text \<open>
  The table \<^verbatim>\<open>language_codes\<close>: code and name, in the order of the source, which is
  the order of GLib's \<^verbatim>\<open>GUnicodeScript\<close> (\<^verbatim>\<open>G_UNICODE_SCRIPT_COMMON\<close> is 0,
  \<^verbatim>\<open>G_UNICODE_SCRIPT_NKO\<close> is 66), so that the script of an entry is its index.
\<close>

definition language_codes :: "(string \<times> string) list" where
  "language_codes =
    [('''', ''english''), ('''', ''''), (''ar'', ''arabic''), (''hy'', ''armenian''),
     (''bn'', ''chineese''), ('''', ''''), (''chr'', ''''), (''cop'', ''''),
     (''ru'', ''russian''), ('''', ''''), (''hi'', ''''), (''am'', ''''), (''ka'', ''''),
     ('''', ''''), (''el'', ''greek''), (''gu'', ''''), (''pa'', ''''),
     (''han'', ''chineese''), (''ko'', ''''), (''he'', ''hebrew''), (''ja'', ''''),
     (''kn'', ''''), (''ja'', ''''), (''km'', ''''), (''lo'', ''''), (''en'', ''english''),
     (''ml'', ''''), (''mn'', ''''), (''my'', ''''), ('''', ''''), ('''', ''''),
     (''or'', ''''), ('''', ''''), (''si'', ''''), (''syr'', ''''), (''ta'', ''''),
     (''te'', ''''), (''dv'', ''''), (''th'', ''''), (''bo'', ''''), (''iu'', ''''),
     ('''', ''''), (''tl'', ''''), (''hnn'', ''''), (''bku'', ''''), (''tbw'', ''''),
     ('''', ''''), ('''', ''''), ('''', ''''), ('''', ''''), ('''', ''''), ('''', ''''),
     ('''', ''''), (''uga'', ''''), ('''', ''''), (''bug'', ''''), ('''', ''''),
     ('''', ''''), (''syl'', ''''), (''peo'', ''''), ('''', ''''), ('''', ''''),
     ('''', ''''), ('''', ''''), ('''', ''''), ('''', ''''), (''nqo'', '''')]"

text \<open>\<^verbatim>\<open>bsearch\<close> over the table, with \<^verbatim>\<open>language_elts_cmp\<close>.\<close>

definition bsearch_language :: "nat \<Rightarrow> (string \<times> string) option" where
  "bsearch_language sel =
     (if sel < length language_codes then Some (language_codes ! sel) else None)"

definition max_chars :: nat where
  "max_chars = 32"

text \<open>GLib's \<^verbatim>\<open>g_utf8_next_char\<close>: the length of a sequence, from its first byte.\<close>

definition g_utf8_skip :: "char \<Rightarrow> nat" where
  "g_utf8_skip b =
     (let n = (of_char b :: nat) in
      if n < 192 then 1 else if n < 224 then 2 else if n < 240 then 3
      else if n < 248 then 4 else if n < 252 then 5 else if n < 254 then 6 else 1)"

text \<open>
  The first loop of \<^verbatim>\<open>detect_text_language\<close>. \<open>p\<close> is what is left of the content
  (\<^verbatim>\<open>remain\<close> is its length, and the loop ends when it is no longer positive).
\<close>

function count_scripts :: "env \<Rightarrow> string \<Rightarrow> nat \<Rightarrow> nat list \<Rightarrow> nat list" where
  "count_scripts env p processed scripts =
     (case p of
        [] \<Rightarrow> scripts
      | b # _ \<Rightarrow>
          if processed < max_chars then
            (case g_utf8_get_char_validated env p of
               None \<Rightarrow> scripts
             | Some c \<Rightarrow>
                 if g_unichar_isalpha env c then
                   (let scc = g_unichar_get_script env c in
                    count_scripts env (drop (g_utf8_skip b) p) (processed + 1)
                      (if scc < length scripts then scripts[scc := scripts ! scc + 1]
                       else scripts))
                 else count_scripts env (drop (g_utf8_skip b) p) processed scripts)
          else scripts)"
  by pat_completeness auto
termination
  by (relation "measure (\<lambda>(env, p, processed, scripts). length p)")
     (auto simp: g_utf8_skip_def Let_def)

text \<open>The second loop: the first script with the greatest count.\<close>

fun select_script :: "nat list \<Rightarrow> nat \<Rightarrow> nat \<Rightarrow> nat \<Rightarrow> nat" where
  "select_script [] remain mx sel = sel"
| "select_script (s # scripts) remain mx sel =
     (if s > mx then select_script scripts (Suc remain) s remain
      else select_script scripts (Suc remain) mx sel)"

definition detect_text_language :: "env \<Rightarrow> rspamd_mime_text_part \<Rightarrow> rspamd_mime_text_part" where
  "detect_text_language env part =
     (if IS_PART_UTF part then
        (let scripts = count_scripts env (the (content part)) 0
                         (replicate (length language_codes) 0);
             sel = select_script scripts 0 0 0;
             part' = part\<lparr>script := sel\<rparr>
         in case bsearch_language sel of
              Some (code, name) \<Rightarrow> part'\<lparr>lang_code := Some code, language := Some name\<rparr>
            | None \<Rightarrow> part')
      else part)"


subsection \<open>Words and hashes\<close>

definition words_hash_seed :: guint64 where
  "words_hash_seed = 0xdeadbabe"

definition is_sentinel :: "rspamd_ftok_t \<Rightarrow> bool" where
  "is_sentinel w \<longleftrightarrow> ftok_len w = 6 \<and> take 6 (ftok_begin w) = ''!!EX!!''"

text \<open>
  The first block of the loop body of \<^verbatim>\<open>rspamd_extract_words\<close>: the word is
  replaced by its stem \<open>r\<close>, cut to the length of the word, or else by its lower-cased
  copy, whose length is that of the word. Empty words and the word \<^verbatim>\<open>!!EX!!\<close> are
  left as they are.
\<close>

definition normalize_word ::
  "env \<Rightarrow> bool \<Rightarrow> string option \<Rightarrow> rspamd_ftok_t \<Rightarrow> rspamd_ftok_t" where
  "normalize_word env utf r w =
     (if ftok_len w > 0 \<and> \<not> is_sentinel w then
        (case r of
           Some stemmed \<Rightarrow>
             (let nlen = min (length stemmed) (ftok_len w)
              in w\<lparr>ftok_begin := take nlen stemmed, ftok_len := nlen\<rparr>)
         | None \<Rightarrow>
             (let temp_word = take (ftok_len w) (ftok_begin w)
              in w\<lparr>ftok_begin := (if utf then rspamd_str_lc_utf8 env temp_word
                                    else rspamd_str_lc env temp_word)\<rparr>))
      else w)"

text \<open>
  Lines 271 and 272: the hash of the \<open>ftok_len\<close> bytes of a word, with the fixed
  seed.
\<close>

definition token_hash :: "env \<Rightarrow> rspamd_ftok_t \<Rightarrow> guint64" where
  "token_hash env w =
     rspamd_cryptobox_fast_hash_specific env (take (ftok_len w) (ftok_begin w)) words_hash_seed"

text \<open>
  The loop over the words. \<open>stem\<close> is the stemmer, or \<open>None\<close> for the pointer
  \<^verbatim>\<open>NULL\<close>. The result is the words as the loop leaves them and the hashes it has
  appended: one for each word whose length is positive after the first block.
\<close>

fun extract_words_loop ::
  "env \<Rightarrow> bool \<Rightarrow> (string \<Rightarrow> string option) option \<Rightarrow> rspamd_ftok_t list \<Rightarrow>
   rspamd_ftok_t list \<times> guint64 list" where
  "extract_words_loop env utf stem [] = ([], [])"
| "extract_words_loop env utf stem (w # ws) =
     (let r = (case stem of
                 Some st \<Rightarrow> st (take (ftok_len w) (ftok_begin w))
               | None \<Rightarrow> None);
          w' = normalize_word env utf r w;
          hs = (if ftok_len w' > 0 then [token_hash env w'] else []);
          (ws', hs') = extract_words_loop env utf stem ws
      in (w' # ws', hs @ hs'))"

text \<open>
  \<^verbatim>\<open>rspamd_extract_words\<close>. The stemmer is made only when the program is built with
  Snowball, the part has a language with a non-empty name and is UTF-8.
\<close>

definition rspamd_extract_words ::
  "env \<Rightarrow> rspamd_task \<Rightarrow> rspamd_mime_text_part \<Rightarrow> rspamd_task \<times> rspamd_mime_text_part" where
  "rspamd_extract_words env task part =
     (let wants_stem = (WITH_SNOWBALL env \<and> language part \<noteq> None \<and>
                        language part \<noteq> Some [] \<and> IS_PART_UTF part);
          stem = (if wants_stem then sb_stemmer_new env (the (language part)) else None);
          task1 = (if wants_stem \<and> stem = None
                   then log_add (LOG_INFO, ''<%s> cannot create lemmatizer for %s language'') task
                   else task);
          part1 = part\<lparr>normalized_words :=
                    rspamd_tokenize_text env (the (content part)) (IS_PART_UTF part)
                      (exceptions part)\<rparr>
      in case normalized_words part1 of
           None \<Rightarrow> (task1, part1)
         | Some ws \<Rightarrow>
             (let (ws', hs) = extract_words_loop env (IS_PART_UTF part) stem ws
              in (task1, part1\<lparr>normalized_words := Some ws', normalized_hashes := Some hs\<rparr>)))"

subsection \<open>Stripping newlines\<close>

text \<open>
  \<^verbatim>\<open>rspamd_normalize_text_part\<close>: every stripped newline becomes an exception of
  length 0, put at the head of the list of exceptions.
\<close>

definition newline_exception :: "nat \<Rightarrow> rspamd_process_exception" where
  "newline_exception off = \<lparr>ex_pos = off, ex_len = 0, ex_type = RSPAMD_EXCEPTION_NEWLINE\<rparr>"

definition rspamd_normalize_text_part ::
  "env \<Rightarrow> rspamd_mime_text_part \<Rightarrow> rspamd_mime_text_part" where
  "rspamd_normalize_text_part env part =
     (let res = rspamd_strip_newlines_parse env (the (content part)) (IS_PART_HTML part)
      in part\<lparr>stripped_content := Some (nl_stripped res),
              newlines := Some (nl_newlines res),
              nlines := nl_nlines res,
              exceptions := fold (\<lambda>off exs. newline_exception off # exs)
                              (nl_newlines res) (exceptions part)\<rparr>)"


subsection \<open>Processing one text part\<close>

text \<open>
  A text part is allocated zeroed and then linked to its MIME part, the part of the task
  with index \<open>i\<close>.
\<close>

definition new_text_part :: "rspamd_mime_part \<Rightarrow> nat \<Rightarrow> rspamd_mime_text_part" where
  "new_text_part mp i =
     \<lparr>tp_flags = {}, raw = raw_data mp, parsed = parsed_data mp, mime_part = i,
      content = None, exceptions = [], language = None, lang_code = None, script = 0,
      stripped_content = None, newlines = None, nlines = 0,
      normalized_words = None, normalized_hashes = None\<rparr>"

text \<open>\<^verbatim>\<open>g_ptr_array_add (task->text_parts, text_part)\<close>.\<close>

definition add_text_part :: "rspamd_mime_text_part \<Rightarrow> rspamd_task \<Rightarrow> rspamd_task" where
  "add_text_part part task = task\<lparr>text_parts := text_parts task @ [part]\<rparr>"

text \<open>
  The array holds a pointer to the text part, so that what is written to the part after
  it has been added is seen through the array: the model writes the part back at its
  index.
\<close>

definition set_text_part :: "nat \<Rightarrow> rspamd_mime_text_part \<Rightarrow> rspamd_task \<Rightarrow> rspamd_task" where
  "set_text_part n part task = task\<lparr>text_parts := (text_parts task)[n := part]\<rparr>"

definition set_part_utf :: "bool \<Rightarrow> rspamd_mime_text_part \<Rightarrow> rspamd_mime_text_part" where
  "set_part_utf utf part =
     part\<lparr>tp_flags := (if utf then insert RSPAMD_MIME_TEXT_PART_FLAG_UTF (tp_flags part)
                         else tp_flags part - {RSPAMD_MIME_TEXT_PART_FLAG_UTF})\<rparr>"

text \<open>
  The branch for the subtypes \<^verbatim>\<open>html\<close> and \<^verbatim>\<open>xhtml\<close> (lines 428 to 465). The
  second component of the result tells that the function has returned from inside the
  branch.
\<close>

definition html_text_part :: "env \<Rightarrow> rspamd_task \<Rightarrow> nat \<Rightarrow> rspamd_task \<times> bool" where
  "html_text_part env task i =
     (let mp = parts task ! i;
          text_part = (new_text_part mp i)\<lparr>tp_flags := {RSPAMD_MIME_TEXT_PART_FLAG_HTML}\<rparr>
      in if length (parsed_data mp) = 0 then
           (add_text_part
              (text_part\<lparr>tp_flags := insert RSPAMD_MIME_TEXT_PART_FLAG_EMPTY (tp_flags text_part)\<rparr>)
              task, True)
         else
           (let (utf, part_content) = rspamd_mime_text_part_maybe_convert env task text_part;
                text_part1 = set_part_utf utf text_part;
                text_part2 = text_part1\<lparr>tp_flags :=
                               insert RSPAMD_MIME_TEXT_PART_FLAG_BALANCED (tp_flags text_part1)\<rparr>;
                res = rspamd_html_process_part_full env part_content;
                text_part3 = text_part2\<lparr>content := Some (html_content res),
                                         exceptions := html_exceptions res\<rparr>;
                text_part4 = (if length (html_content res) = 0
                              then text_part3\<lparr>tp_flags :=
                                     insert RSPAMD_MIME_TEXT_PART_FLAG_EMPTY (tp_flags text_part3)\<rparr>
                              else text_part3)
            in (add_text_part text_part4 (task\<lparr>urls := urls task @ html_urls res\<rparr>), False)))"

text \<open>The branch for the other subtypes (lines 469 to 487).\<close>

definition plain_text_part :: "env \<Rightarrow> rspamd_task \<Rightarrow> nat \<Rightarrow> rspamd_task \<times> bool" where
  "plain_text_part env task i =
     (let mp = parts task ! i;
          text_part = new_text_part mp i
      in if length (parsed_data mp) = 0 then
           (add_text_part
              (text_part\<lparr>tp_flags := insert RSPAMD_MIME_TEXT_PART_FLAG_EMPTY (tp_flags text_part)\<rparr>)
              task, True)
         else
           (let (utf, c) = rspamd_mime_text_part_maybe_convert env task text_part;
                text_part1 = (set_part_utf utf text_part)\<lparr>content := Some c\<rparr>
            in (add_text_part text_part1 task, False)))"

text \<open>What the function does when the GTUBE check has succeeded (lines 495 to 511).\<close>

definition gtube_found :: "env \<Rightarrow> rspamd_task \<Rightarrow> rspamd_task" where
  "gtube_found env task =
     (let task1 = (case rspamd_create_metric_result env task of
                     None \<Rightarrow> task
                   | Some mres \<Rightarrow>
                       task\<lparr>metric_res := Some (mres\<lparr>
                         mres_score := rspamd_task_get_required_score env task mres,
                         mres_action := METRIC_ACTION_REJECT\<rparr>)\<rparr>)
      in task1\<lparr>pre_result_action := METRIC_ACTION_REJECT,
               pre_result_str := Some ''Gtube pattern'',
               messages := messages task1 @ [(''smtp_message'', ''Gtube pattern'')],
               symbols := symbols task1 @ [(''GTUBE'', 0)]\<rparr>)"

text \<open>
  The post-processing of the part with index \<open>n\<close> among the text parts (lines 515 to
  530). \<^verbatim>\<open>g_list_sort\<close> is a stable sort; \<^verbatim>\<open>exceptions_compare_func\<close> compares
  the positions.
\<close>

definition post_process_text_part :: "env \<Rightarrow> rspamd_task \<Rightarrow> nat \<Rightarrow> rspamd_task" where
  "post_process_text_part env task n =
     (let part1 = detect_text_language env (text_parts task ! n);
          part2 = rspamd_normalize_text_part env part1;
          task2 = set_text_part n part2 task;
          (task3, part3) =
            (if \<not> IS_PART_HTML part2 then
               (let (found, exs) = rspamd_url_text_extract env task2 part2;
                    part' = part2\<lparr>exceptions := exs @ exceptions part2\<rparr>
                in (set_text_part n part' (task2\<lparr>urls := urls task2 @ found\<rparr>), part'))
             else (task2, part2));
          part4 = (if exceptions part3 \<noteq> []
                   then part3\<lparr>exceptions := sort_key ex_pos (exceptions part3)\<rparr>
                   else part3);
          (task5, part5) = rspamd_extract_words env (set_text_part n part4 task3) part4
      in set_text_part n part5 task5)"

text \<open>
  Lines 425 to 488: the branch is chosen by the subtype. \<^verbatim>\<open>rspamd_ftok_cmp\<close> is 0
  when the two tokens are the same bytes.
\<close>

definition make_text_part :: "env \<Rightarrow> rspamd_task \<Rightarrow> nat \<Rightarrow> rspamd_task \<times> bool" where
  "make_text_part env task i =
     (if ct_subtype (the (ct (parts task ! i))) = ''html'' \<or>
         ct_subtype (the (ct (parts task ! i))) = ''xhtml''
      then html_text_part env task i
      else plain_text_part env task i)"

definition skip_attachment :: "rspamd_task \<Rightarrow> rspamd_mime_part \<Rightarrow> bool" where
  "skip_attachment task mp \<longleftrightarrow>
     (case cd mp of None \<Rightarrow> False | Some d \<Rightarrow> cd_type d = RSPAMD_CT_ATTACHMENT) \<and>
     (case cfg task of None \<Rightarrow> False | Some c \<Rightarrow> \<not> check_text_attachements c)"

text \<open>\<^verbatim>\<open>rspamd_message_process_text_part\<close>, for the MIME part with index \<open>i\<close>.\<close>

definition rspamd_message_process_text_part :: "env \<Rightarrow> rspamd_task \<Rightarrow> nat \<Rightarrow> rspamd_task" where
  "rspamd_message_process_text_part env task i =
     (let mp = parts task ! i in
      if skip_attachment task mp then
        log_add (LOG_DEBUG, ''skip attachments for checking as text parts'') task
      else
        (let n = length (text_parts task);
             (task1, returned) = make_text_part env task i
         in if returned then task1
            else
              (let task2 = task1\<lparr>parts := (parts task1)[i :=
                             (parts task1 ! i)\<lparr>mp_flags :=
                                insert RSPAMD_MIME_PART_TEXT (mp_flags (parts task1 ! i)),
                              specific := SPECIFIC_TXT n\<rparr>]\<rparr>;
                   (task3, found) = rspamd_check_gtube task2 (text_parts task2 ! n)
               in if found then gtube_found env task3
                  else post_process_text_part env task3 n)))"


subsection \<open>The orchestrator\<close>

text \<open>
  GLib's \<^verbatim>\<open>g_ascii_isspace\<close>: the space, the horizontal tab, the line feed, the
  form feed and the carriage return. The vertical tab (0x0B) is not among them.
\<close>

definition g_ascii_isspace :: "char \<Rightarrow> bool" where
  "g_ascii_isspace c \<longleftrightarrow>
     c = CHR '' '' \<or> c = CHR 0x09 \<or> c = CHR 0x0A \<or> c = CHR 0x0C \<or> c = CHR 0x0D"

text \<open>
  The pointer \<^verbatim>\<open>p\<close> and the length \<^verbatim>\<open>len\<close> are what is left of the message.
  \<^verbatim>\<open>while (len > 0 && g_ascii_isspace (*p)) { p ++; len --; }\<close>
\<close>

fun skip_spaces :: "string \<Rightarrow> string" where
  "skip_spaces [] = []"
| "skip_spaces (c # cs) = (if g_ascii_isspace c then skip_spaces cs else c # cs)"

text \<open>\<^verbatim>\<open>while (len > 0 && *p != '\n') { p ++; len --; }\<close>\<close>

fun skip_to_newline :: "string \<Rightarrow> string" where
  "skip_to_newline [] = []"
| "skip_to_newline (c # cs) = (if c \<noteq> CHR 0x0A then skip_to_newline cs else c # cs)"

text \<open>
  Lines 605 to 643: the message of the task, after the leading spaces and the line of a
  mailbox have been skipped. \<^verbatim>\<open>sizeof ("From ") - 1\<close> is 5.
\<close>

definition skip_mbox_envelope :: "rspamd_task \<Rightarrow> rspamd_task" where
  "skip_mbox_envelope task =
     (let p = skip_spaces (msg task) in
      if RSPAMD_TASK_FLAG_JSON \<notin> task_flags task \<or>
         RSPAMD_TASK_FLAG_LOCAL_CLIENT \<in> task_flags task then
        (if length p > 5 then
           (if take 5 p = ''From '' then
              (log_add (LOG_INFO, ''mailbox input detected, enable workaround'') task)
                \<lparr>msg := skip_spaces (skip_to_newline (drop 5 p))\<rparr>
            else task\<lparr>msg := p\<rparr>)
         else task\<lparr>msg := p\<rparr>)
      else task\<lparr>msg := p\<rparr>)"

text \<open>
  \<^verbatim>\<open>rspamd_message_from_data\<close>. Its lines 546 to 573 build a content type and a part
  that are stored nowhere in the task; what stays is the warning and the generated
  message id. The function asserts that the buffer is not \<^verbatim>\<open>NULL\<close>: the message
  of a task that is not empty is a buffer.
\<close>

definition rspamd_message_from_data :: "env \<Rightarrow> rspamd_task \<Rightarrow> string \<Rightarrow> rspamd_task" where
  "rspamd_message_from_data env task start =
     (let mid = rspamd_mime_message_id_generate env ''localhost.localdomain''
      in (log_add (LOG_WARN, ''construct fake mime of type: %s'') task)
           \<lparr>message_id := Some mid, queue_id := Some mid\<rparr>)"

text \<open>
  Lines 646 to 670. The second component is \<open>False\<close> when the orchestrator returns
  \<^verbatim>\<open>FALSE\<close> here. The parser fills the parts and the headers of the task and may
  set the error \<^verbatim>\<open>err\<close>, which the orchestrator stores in the task when it is set.
\<close>

definition construct_mime :: "env \<Rightarrow> rspamd_task \<Rightarrow> rspamd_task \<times> bool" where
  "construct_mime env task =
     (if RSPAMD_TASK_FLAG_MIME \<in> task_flags task then
        (let task0 = log_add (LOG_DEBUG, ''construct mime parser from string length %d'') task;
             res = rspamd_mime_parse_task env task0;
             task1 = task0\<lparr>parts := mp_parts res, raw_headers := mp_headers res\<rparr>
         in if \<not> mp_ok res then
              (let task2 = log_add (LOG_ERR, ''cannot construct mime from stream: %e'') task1
               in if (case cfg task2 of None \<Rightarrow> False | Some c \<Rightarrow> \<not> allow_raw_input c) then
                    ((log_add (LOG_ERR, ''cannot construct mime from stream'') task2)
                       \<lparr>err := (case mp_err res of Some e \<Rightarrow> Some e | None \<Rightarrow> err task2)\<rparr>,
                     False)
                  else
                    (rspamd_message_from_data env
                       (task2\<lparr>task_flags := task_flags task2 - {RSPAMD_TASK_FLAG_MIME}\<rparr>)
                       (msg task2), True))
            else (task1, True))
      else
        (rspamd_message_from_data env
           (task\<lparr>task_flags := task_flags task - {RSPAMD_TASK_FLAG_MIME}\<rparr>) (msg task), True))"

text \<open>
  Lines 681 to 692: a leading \<^verbatim>\<open><\<close> is skipped, and then a closing \<^verbatim>\<open>>\<close> at the
  end of what is left is cut.
\<close>

definition strip_message_id :: "string \<Rightarrow> string" where
  "strip_message_id decoded =
     (case decoded of
        [] \<Rightarrow> decoded
      | c # p \<Rightarrow>
          if c = CHR ''<'' then (if p \<noteq> [] \<and> last p = CHR ''>'' then butlast p else p)
          else decoded)"

text \<open>
  Lines 673 to 699. The first element of the array of headers is read without a test of
  its length.
\<close>

definition save_message_id :: "rspamd_task \<Rightarrow> rspamd_task" where
  "save_message_id task =
     (let task1 = (case raw_headers task ''Message-ID'' of
                     Some hdrs \<Rightarrow>
                       task\<lparr>message_id := Some (strip_message_id (hdr_decoded (hdrs ! 0)))\<rparr>
                   | None \<Rightarrow> task)
      in if message_id task1 = None then task1\<lparr>message_id := Some ''undef''\<rparr> else task1)"

text \<open>Lines 701 to 713.\<close>

definition save_subject :: "rspamd_task \<Rightarrow> rspamd_task" where
  "save_subject task =
     (let task1 = (if subject task = None then
                     (case raw_headers task ''Subject'' of
                        Some hdrs \<Rightarrow> task\<lparr>subject := Some (hdr_decoded (hdrs ! 0))\<rparr>
                      | None \<Rightarrow> task)
                   else task);
          task2 = log_add (LOG_DEBUG, ''found %ud parts in message'') task1
      in if queue_id task2 = None then task2\<lparr>queue_id := Some ''undef''\<rparr> else task2)"

text \<open>Lines 715 to 723: the loop over the parts.\<close>

definition process_parts :: "env \<Rightarrow> rspamd_task \<Rightarrow> rspamd_task" where
  "process_parts env task =
     fold (\<lambda>i t. if IS_CT_TEXT (ct (parts t ! i))
                  then rspamd_message_process_text_part env t i else t)
          [0..<length (parts task)] task"

text \<open>
  Lines 725 and 726. \<^verbatim>\<open>rspamd_images_process\<close> and
  \<^verbatim>\<open>rspamd_archives_process\<close> look at the parts of the task; to each part in which
  they find an image or an archive they give the flag and the payload. The parameters
  return the indices of these parts.
\<close>

definition mark_parts ::
  "mime_part_flag \<Rightarrow> part_specific \<Rightarrow> nat list \<Rightarrow> rspamd_task \<Rightarrow> rspamd_task" where
  "mark_parts f payload found task =
     task\<lparr>parts := map (\<lambda>(i, p). if i \<in> set found
                                 then p\<lparr>mp_flags := insert f (mp_flags p), specific := payload\<rparr>
                                 else p)
                        (enumerate 0 (parts task))\<rparr>"

definition process_images_archives :: "env \<Rightarrow> rspamd_task \<Rightarrow> rspamd_task" where
  "process_images_archives env task =
     (let task1 = mark_parts RSPAMD_MIME_PART_IMAGE SPECIFIC_IMG
                    (rspamd_images_process env task) task
      in mark_parts RSPAMD_MIME_PART_ARCHIVE SPECIFIC_ARCH
           (rspamd_archives_process env task1) task1)"

text \<open>
  Lines 870 to 878: the URLs in the \<^verbatim>\<open>Subject\<close> headers are added to those of the
  task.
\<close>

definition subject_urls :: "env \<Rightarrow> rspamd_task \<Rightarrow> rspamd_task" where
  "subject_urls env task =
     (case raw_headers task ''Subject'' of
        None \<Rightarrow> task
      | Some hdrs \<Rightarrow>
          task\<lparr>urls := urls task @
                  concat (map (\<lambda>rh. rspamd_url_find_multiple env (hdr_decoded rh)) hdrs)\<rparr>)"

text \<open>\<^verbatim>\<open>rspamd_mempool_set_variable\<close> on the pool of the task.\<close>

definition set_variable :: "string \<Rightarrow> pool_variable \<Rightarrow> rspamd_task \<Rightarrow> rspamd_task" where
  "set_variable name v task = task\<lparr>variables := (variables task)(name \<mapsto> v)\<rparr>"

text \<open>
  Lines 897 to 925, for two parts that have hashes. \<open>tw\<close> is a \<^verbatim>\<open>guint\<close>;
  \<open>diff\<close> is the quotient of the two numbers as a \<^verbatim>\<open>gdouble\<close>, modelled by the
  real quotient.
\<close>

definition publish_distance ::
  "rspamd_task \<Rightarrow> guint64 list \<Rightarrow> guint64 list \<Rightarrow> rspamd_task" where
  "publish_distance task h1 h2 =
     (let tw = garray_len h1 + garray_len h2 in
      if tw > 0 then
        (let (dw, msgs) = rspamd_words_levenshtein_distance h1 h2;
             task1 = task\<lparr>log := log task @ msgs\<rparr>;
             diff = real (unat dw) / real (unat tw);
             task2 = log_add (LOG_DEBUG,
                       ''different words: %d, total words: %d, got diff between parts of %.2f'')
                       task1
         in set_variable ''total_words'' (POOL_UINT tw)
              (set_variable ''parts_distance'' (POOL_DOUBLE diff) task2))
      else task)"

text \<open>Lines 881 to 933: the distance between the parts of a message of two text parts.\<close>

definition calculate_distance :: "rspamd_task \<Rightarrow> rspamd_task" where
  "calculate_distance task =
     (if length (text_parts task) = 2 then
        (let p1 = text_parts task ! 0;
             p2 = text_parts task ! 1;
             parent1 = parent_part (parts task ! mime_part p1);
             parent2 = parent_part (parts task ! mime_part p2)
         in if parent1 \<noteq> None \<and> parent1 = parent2 then
              (if ct_subtype (the (ct (parts task ! the parent1))) = ''alternative'' then
                 (if \<not> IS_PART_EMPTY p1 \<and> \<not> IS_PART_EMPTY p2 \<and>
                     normalized_hashes p1 \<noteq> None \<and> normalized_hashes p2 \<noteq> None
                  then publish_distance task (the (normalized_hashes p1))
                         (the (normalized_hashes p2))
                  else task)
               else task)
            else log_add (LOG_DEBUG,
                   ''message contains two parts but they are in different multi-parts'') task)
      else task)"

text \<open>Lines 945 to 956.\<close>

definition log_loaded :: "rspamd_task \<Rightarrow> rspamd_task" where
  "log_loaded task =
     (if queue_id task \<noteq> None then
        log_add (LOG_INFO,
          ''loaded message; id: <%s>; queue-id: <%s>; size: %z; checksum: <%*xs>'') task
      else
        log_add (LOG_INFO, ''loaded message; id: <%s>; size: %z; checksum: <%*xs>'') task)"

text \<open>\<^verbatim>\<open>rspamd_message_parse\<close>: the task as the function leaves it, and its result.\<close>

definition rspamd_message_parse :: "env \<Rightarrow> rspamd_task \<Rightarrow> rspamd_task \<times> bool" where
  "rspamd_message_parse env task =
     (if RSPAMD_TASK_IS_EMPTY task then (task, True)
      else
        (let (task1, ok) = construct_mime env (skip_mbox_envelope task)
         in if \<not> ok then (task1, False)
            else (log_loaded (calculate_distance (subject_urls env
                    (process_images_archives env (process_parts env
                       (save_subject (save_message_id task1)))))), True)))"

subsection \<open>Notions used in the statements\<close>

text \<open>
  The text part as lines 425 to 488 leave it when they do not return: it is the last of
  the text parts of the task.
\<close>

definition converted_text_part :: "env \<Rightarrow> rspamd_task \<Rightarrow> nat \<Rightarrow> rspamd_mime_text_part" where
  "converted_text_part env task i =
     last (text_parts (fst (make_text_part env task i)))"

text \<open>
  The GTUBE check finds the pattern in a part: the part has a content, of a size that
  the check looks at, and the pattern occurs in it.
\<close>

definition gtube_in_part :: "rspamd_mime_text_part \<Rightarrow> bool" where
  "gtube_in_part part \<longleftrightarrow>
     (case content part of
        None \<Rightarrow> False
      | Some c \<Rightarrow> sizeof_gtube_pattern < length c \<and> length c \<le> max_check_size \<and>
                  sublist gtube_pattern c)"

text \<open>
  The task has exactly two text parts, under the same parent, which is a part of the
  task with the subtype \<^verbatim>\<open>alternative\<close>; neither is flagged \<^verbatim>\<open>EMPTY\<close>,
  and their hashes are \<open>h1\<close> and \<open>h2\<close>.
\<close>

definition two_alternative_parts :: "rspamd_task \<Rightarrow> guint64 list \<Rightarrow> guint64 list \<Rightarrow> bool" where
  "two_alternative_parts task h1 h2 \<longleftrightarrow>
     length (text_parts task) = 2 \<and>
     mime_part (text_parts task ! 0) < length (parts task) \<and>
     mime_part (text_parts task ! 1) < length (parts task) \<and>
     (case parent_part (parts task ! mime_part (text_parts task ! 0)) of
        None \<Rightarrow> False
      | Some parent \<Rightarrow>
          parent_part (parts task ! mime_part (text_parts task ! 1)) = Some parent \<and>
          parent < length (parts task) \<and>
          (case ct (parts task ! parent) of
             None \<Rightarrow> False
           | Some c \<Rightarrow> ct_subtype c = ''alternative'')) \<and>
     \<not> IS_PART_EMPTY (text_parts task ! 0) \<and>
     \<not> IS_PART_EMPTY (text_parts task ! 1) \<and>
     normalized_hashes (text_parts task ! 0) = Some h1 \<and>
     normalized_hashes (text_parts task ! 1) = Some h2"

text \<open>
  The handling of a mailbox line is on: the task is not flagged as JSON, or it is
  flagged as coming from a local client.
\<close>

definition mbox_handling :: "rspamd_task \<Rightarrow> bool" where
  "mbox_handling task \<longleftrightarrow>
     RSPAMD_TASK_FLAG_JSON \<notin> task_flags task \<or>
     RSPAMD_TASK_FLAG_LOCAL_CLIENT \<in> task_flags task"

text \<open>
  The message that is parsed, in the words of the specification: the leading
  whitespace is dropped; then, when the handling of a mailbox line is on and what is
  left is longer than \<^verbatim>\<open>From \<close> and begins with it, everything up to the next
  line feed and the whitespace from there on are dropped as well.
\<close>

definition trimmed_message :: "bool \<Rightarrow> string \<Rightarrow> string" where
  "trimmed_message mbox m =
     (let r = dropWhile g_ascii_isspace m in
      if mbox \<and> 5 < length r \<and> take 5 r = ''From ''
      then dropWhile g_ascii_isspace (dropWhile (\<lambda>c. c \<noteq> CHR 0x0A) (drop 5 r))
      else r)"

text \<open>The result of the MIME parser, on the task as the orchestrator gives it.\<close>

definition mime_result :: "env \<Rightarrow> rspamd_task \<Rightarrow> mime_parse_result" where
  "mime_result env task =
     rspamd_mime_parse_task env
       (log_add (LOG_DEBUG, ''construct mime parser from string length %d'')
          (skip_mbox_envelope task))"

text \<open>The task has a configuration, and it does not allow raw input.\<close>

definition forbids_raw_input :: "rspamd_task \<Rightarrow> bool" where
  "forbids_raw_input task \<longleftrightarrow>
     (case cfg task of None \<Rightarrow> False | Some c \<Rightarrow> \<not> allow_raw_input c)"

text \<open>
  The task is made from raw data: it is not flagged as MIME, or the MIME parser fails
  on it.
\<close>

definition made_from_data :: "env \<Rightarrow> rspamd_task \<Rightarrow> bool" where
  "made_from_data env task \<longleftrightarrow>
     RSPAMD_TASK_FLAG_MIME \<notin> task_flags task \<or> \<not> mp_ok (mime_result env task)"

text \<open>
  The headers in which the message id is looked up: those the MIME parser has stored,
  when it has been called, and those of the task otherwise.
\<close>

definition headers_after_parse ::
  "env \<Rightarrow> rspamd_task \<Rightarrow> string \<Rightarrow> rspamd_mime_header list option" where
  "headers_after_parse env task =
     (if RSPAMD_TASK_FLAG_MIME \<in> task_flags task then mp_headers (mime_result env task)
      else raw_headers task)"

text \<open>Two states of a task with the same message, message id, error and headers.\<close>

definition same_message :: "rspamd_task \<Rightarrow> rspamd_task \<Rightarrow> bool" where
  "same_message t t' \<longleftrightarrow>
     msg t' = msg t \<and> message_id t' = message_id t \<and> err t' = err t \<and>
     raw_headers t' = raw_headers t"

subsection \<open>Example inputs\<close>

text \<open>
  Stand-ins for the collaborators and small tasks, on which the properties below are
  evaluated. The example parser accepts a message that starts with one
  \<^verbatim>\<open>Message-ID\<close> header and an empty line, and makes one \<^verbatim>\<open>text/plain\<close> part
  of the rest; the example tokenizer cuts the content at the spaces.
\<close>

definition example_header :: string where
  "example_header = ''Message-ID: <1@example.org>'' @ [CHR 0x0A, CHR 0x0A]"

text \<open>A message that the example parser accepts, after two spaces.\<close>

definition example_message :: string where
  "example_message = ''  '' @ example_header @ ''hello world''"

text \<open>The same message after a space and the line of a mailbox.\<close>

definition example_mbox_message :: string where
  "example_mbox_message =
     '' From a@example.org Fri May 13 19:08:48 2016'' @ [CHR 0x0A] @ example_message"

definition example_text_ct :: "string \<Rightarrow> rspamd_content_type" where
  "example_text_ct sub =
     \<lparr>ct_type = ''text'', ct_subtype = sub,
      ct_flags = {RSPAMD_CONTENT_TYPE_VALID, RSPAMD_CONTENT_TYPE_TEXT}\<rparr>"

definition example_mime_part ::
  "rspamd_content_type \<Rightarrow> nat option \<Rightarrow> string \<Rightarrow> rspamd_mime_part" where
  "example_mime_part c parent body =
     \<lparr>ct = Some c, cd = None, raw_data = body, parsed_data = body, parent_part = parent,
      mp_flags = {}, specific = SPECIFIC_NONE\<rparr>"

definition example_mime_parse :: "rspamd_task \<Rightarrow> mime_parse_result" where
  "example_mime_parse task =
     (if take (length example_header) (msg task) = example_header then
        \<lparr>mp_ok = True, mp_err = None,
         mp_parts = [example_mime_part (example_text_ct ''plain'') None
                       (drop (length example_header) (msg task))],
         mp_headers = [''Message-ID'' \<mapsto>
                         [\<lparr>hdr_name = ''Message-ID'', hdr_value = ''<1@example.org>'',
                           hdr_decoded = ''<1@example.org>''\<rparr>]]\<rparr>
      else
        \<lparr>mp_ok = False, mp_err = Some ''cannot find headers'', mp_parts = [],
         mp_headers = Map.empty\<rparr>)"

fun split_spaces :: "string \<Rightarrow> string \<Rightarrow> string list" where
  "split_spaces acc [] = [acc]"
| "split_spaces acc (c # cs) =
     (if c = CHR '' '' then acc # split_spaces [] cs else split_spaces (acc @ [c]) cs)"

definition example_token :: "string \<Rightarrow> rspamd_ftok_t" where
  "example_token w = \<lparr>ftok_len = length w, ftok_begin = w\<rparr>"

definition example_hash :: "string \<Rightarrow> guint64 \<Rightarrow> guint64" where
  "example_hash s seed = foldl (\<lambda>h c. h * 31 + of_nat (of_char c)) seed s"

definition example_env :: env where
  "example_env =
     \<lparr>rspamd_mime_parse_task = example_mime_parse,
      rspamd_mime_message_id_generate = (\<lambda>fqdn. ''0123456789abcdef@'' @ fqdn),
      rspamd_mime_text_part_maybe_convert = (\<lambda>task part. (True, parsed part)),
      rspamd_html_process_part_full =
        (\<lambda>c. \<lparr>html_content = c, html_exceptions = [], html_urls = []\<rparr>),
      rspamd_strip_newlines_parse =
        (\<lambda>c html. \<lparr>nl_stripped = c, nl_nlines = 0, nl_newlines = []\<rparr>),
      rspamd_url_text_extract = (\<lambda>task part. ([], [])),
      rspamd_tokenize_text = (\<lambda>c utf exs. Some (map example_token (split_spaces [] c))),
      WITH_SNOWBALL = False,
      sb_stemmer_new = (\<lambda>lang. None),
      rspamd_str_lc = (\<lambda>s. s),
      rspamd_str_lc_utf8 = (\<lambda>s. s),
      rspamd_cryptobox_fast_hash_specific = example_hash,
      rspamd_create_metric_result =
        (\<lambda>task. Some \<lparr>mres_score = 0, mres_action = METRIC_ACTION_NOACTION\<rparr>),
      rspamd_task_get_required_score = (\<lambda>task mres. 15),
      g_utf8_get_char_validated =
        (\<lambda>p. case p of [] \<Rightarrow> None
              | b # _ \<Rightarrow> if (of_char b :: nat) < 128 then Some (of_char b) else None),
      g_unichar_isalpha = (\<lambda>c. (65 \<le> c \<and> c \<le> 90) \<or> (97 \<le> c \<and> c \<le> 122)),
      g_unichar_get_script = (\<lambda>c. 25),
      rspamd_images_process = (\<lambda>task. []),
      rspamd_archives_process = (\<lambda>task. []),
      rspamd_url_find_multiple = (\<lambda>s. [])\<rparr>"

definition example_config :: rspamd_config where
  "example_config =
     \<lparr>check_text_attachements = False, allow_raw_input = False, ignore_received = False\<rparr>"

text \<open>A task as it is before the parse: flags, message and configuration.\<close>

definition example_task :: "task_flag set \<Rightarrow> string \<Rightarrow> rspamd_task" where
  "example_task fl m =
     \<lparr>task_flags = fl, msg = m, cfg = Some example_config, err = None, message_id = None,
      queue_id = None, subject = None, raw_headers = Map.empty, parts = [],
      text_parts = [], urls = [], pre_result_action = METRIC_ACTION_MAX,
      pre_result_str = None, messages = [], metric_res = None, symbols = [],
      variables = Map.empty, log = []\<rparr>"

text \<open>A task whose only part is a text part with the given subtype and content.\<close>

definition example_part_task :: "string \<Rightarrow> string \<Rightarrow> rspamd_task" where
  "example_part_task sub body =
     (example_task {RSPAMD_TASK_FLAG_MIME} [])
       \<lparr>parts := [example_mime_part (example_text_ct sub) None body]\<rparr>"

text \<open>
  A task with a \<^verbatim>\<open>multipart/alternative\<close> part and two text parts under it, whose
  hashes are given.
\<close>

definition example_hashed_part :: "nat \<Rightarrow> guint64 list \<Rightarrow> rspamd_mime_text_part" where
  "example_hashed_part i hs =
     (new_text_part (example_mime_part (example_text_ct ''plain'') (Some 0) ''words'') i)
       \<lparr>content := Some ''words'', normalized_words := Some [],
        normalized_hashes := Some hs\<rparr>"

definition example_alternative_task :: "guint64 list \<Rightarrow> guint64 list \<Rightarrow> rspamd_task" where
  "example_alternative_task h1 h2 =
     (example_task {RSPAMD_TASK_FLAG_MIME} [])
       \<lparr>parts :=
          [example_mime_part
             \<lparr>ct_type = ''multipart'', ct_subtype = ''alternative'',
              ct_flags = {RSPAMD_CONTENT_TYPE_VALID, RSPAMD_CONTENT_TYPE_MULTIPART}\<rparr>
             None [],
           example_mime_part (example_text_ct ''plain'') (Some 0) ''words'',
           example_mime_part (example_text_ct ''plain'') (Some 0) ''words''],
        text_parts := [example_hashed_part 1 h1, example_hashed_part 2 h2]\<rparr>"

section \<open>Properties\<close>

subsection \<open>The edit distance\<close>

lemma lev_init_column_end: "s1len < y \<Longrightarrow> lev_init_column y s1len column = column"
  by (subst lev_init_column.simps) simp

lemma lev_init_column_step:
  "y \<le> s1len \<Longrightarrow>
   lev_init_column y s1len column = lev_init_column (Suc y) s1len (column[y := of_nat y])"
  by (subst lev_init_column.simps) simp

lemma lev_inner_end: "s1len < y \<Longrightarrow> lev_inner w1 w2 x y s1len lastdiag column = column"
  by (subst lev_inner.simps) simp

lemma lev_inner_step:
  "y \<le> s1len \<Longrightarrow>
   lev_inner w1 w2 x y s1len lastdiag column =
   lev_inner w1 w2 x (Suc y) s1len (column ! y)
     (column[y := MIN3 (column ! y + 1) (column ! (y - 1) + 1)
                  (lastdiag + (if w1 ! (y - 1) = w2 ! (x - 1) then 1 else 0) * 2)])"
  by (subst lev_inner.simps) (simp add: Let_def)

lemma lev_outer_end: "s2len < x \<Longrightarrow> lev_outer w1 w2 x s1len s2len column = column"
  by (subst lev_outer.simps) simp

lemma lev_outer_step:
  "x \<le> s2len \<Longrightarrow>
   lev_outer w1 w2 x s1len s2len column =
   lev_outer w1 w2 (Suc x) s1len s2len
     (lev_inner w1 w2 x 1 s1len (of_nat x - 1) (column[0 := of_nat x]))"
  by (subst lev_outer.simps) simp

text \<open>
  C1. The distance between a sequence of one hash and itself should be 0: the two
  sequences are identical, and the edit distance of the specification is 0. The function
  returns 2: \<^verbatim>\<open>eq\<close> is 1 for equal hashes, so that a pair of equal hashes costs 2 and
  a pair of different hashes costs nothing.
\<close>

theorem levenshtein_identical_singletons:
  "fst (rspamd_words_levenshtein_distance [h] [h]) = 2 \<and> levenshtein_spec [h] [h] = 0"
  by (simp add: rspamd_words_levenshtein_distance_def garray_len_def max_words_def MIN3_def
      lev_init_column_step lev_init_column_end lev_inner_step lev_inner_end
      lev_outer_step lev_outer_end)

subsection \<open>The GTUBE check\<close>

lemma substring_search_from_found:
  "substring_search_from i inp srch \<noteq> - 1 \<longleftrightarrow> sublist srch inp"
  by (induction inp arbitrary: i) (auto simp: sublist_Cons_right)

lemma rspamd_substring_search_twoway_found:
  "rspamd_substring_search_twoway inp srch \<noteq> - 1 \<longleftrightarrow> sublist srch inp"
  by (simp add: rspamd_substring_search_twoway_def substring_search_from_found)

lemma length_gtube_pattern: "length gtube_pattern = 68"
  by (simp add: gtube_pattern_def)

text \<open>
  C4. A part whose content is the GTUBE pattern and a line feed has 69 bytes, at most 4
  KiB, and contains the pattern. \<^verbatim>\<open>rspamd_check_gtube\<close> does not search it, sets no
  flag and returns \<^verbatim>\<open>FALSE\<close>: it searches only a content longer than
  \<^verbatim>\<open>sizeof (gtube_pattern)\<close>, which is 69.
\<close>

theorem check_gtube_misses_short_part:
  "sublist gtube_pattern (gtube_pattern @ [CHR 0x0A]) \<and>
   length (gtube_pattern @ [CHR 0x0A]) \<le> max_check_size \<and>
   rspamd_check_gtube task (part\<lparr>content := Some (gtube_pattern @ [CHR 0x0A])\<rparr>) = (task, False)"
proof -
  have "sublist gtube_pattern ([] @ gtube_pattern @ [CHR 0x0A])"
    by (rule sublist_appendI)
  then show ?thesis
    by (simp add: rspamd_check_gtube_def sizeof_gtube_pattern_def max_check_size_def
        length_gtube_pattern)
qed

subsection \<open>What the small steps leave unchanged\<close>

lemma log_add_fields [simp]:
  "task_flags (log_add e t) = task_flags t"
  "msg (log_add e t) = msg t"
  "cfg (log_add e t) = cfg t"
  "err (log_add e t) = err t"
  "message_id (log_add e t) = message_id t"
  "queue_id (log_add e t) = queue_id t"
  "subject (log_add e t) = subject t"
  "raw_headers (log_add e t) = raw_headers t"
  "parts (log_add e t) = parts t"
  "text_parts (log_add e t) = text_parts t"
  "urls (log_add e t) = urls t"
  "pre_result_action (log_add e t) = pre_result_action t"
  "pre_result_str (log_add e t) = pre_result_str t"
  "symbols (log_add e t) = symbols t"
  "variables (log_add e t) = variables t"
  "log (log_add e t) = log t @ [e]"
  by (simp_all add: log_add_def)

lemma add_text_part_fields [simp]:
  "task_flags (add_text_part p t) = task_flags t"
  "msg (add_text_part p t) = msg t"
  "cfg (add_text_part p t) = cfg t"
  "err (add_text_part p t) = err t"
  "message_id (add_text_part p t) = message_id t"
  "raw_headers (add_text_part p t) = raw_headers t"
  "parts (add_text_part p t) = parts t"
  "text_parts (add_text_part p t) = text_parts t @ [p]"
  "urls (add_text_part p t) = urls t"
  "variables (add_text_part p t) = variables t"
  by (simp_all add: add_text_part_def)

lemma set_text_part_fields [simp]:
  "task_flags (set_text_part n p t) = task_flags t"
  "msg (set_text_part n p t) = msg t"
  "cfg (set_text_part n p t) = cfg t"
  "err (set_text_part n p t) = err t"
  "message_id (set_text_part n p t) = message_id t"
  "raw_headers (set_text_part n p t) = raw_headers t"
  "parts (set_text_part n p t) = parts t"
  "text_parts (set_text_part n p t) = (text_parts t)[n := p]"
  "urls (set_text_part n p t) = urls t"
  "variables (set_text_part n p t) = variables t"
  by (simp_all add: set_text_part_def)

lemma gtube_found_fields [simp]:
  "task_flags (gtube_found env t) = task_flags t"
  "msg (gtube_found env t) = msg t"
  "cfg (gtube_found env t) = cfg t"
  "err (gtube_found env t) = err t"
  "message_id (gtube_found env t) = message_id t"
  "raw_headers (gtube_found env t) = raw_headers t"
  "parts (gtube_found env t) = parts t"
  "text_parts (gtube_found env t) = text_parts t"
  "urls (gtube_found env t) = urls t"
  "variables (gtube_found env t) = variables t"
  "pre_result_action (gtube_found env t) = METRIC_ACTION_REJECT"
  "pre_result_str (gtube_found env t) = Some ''Gtube pattern''"
  "symbols (gtube_found env t) = symbols t @ [(''GTUBE'', 0)]"
  by (simp_all add: gtube_found_def Let_def split: option.splits)

lemma new_text_part_fields [simp]:
  "tp_flags (new_text_part mp i) = {}"
  "mime_part (new_text_part mp i) = i"
  "content (new_text_part mp i) = None"
  "exceptions (new_text_part mp i) = []"
  "language (new_text_part mp i) = None"
  "lang_code (new_text_part mp i) = None"
  "stripped_content (new_text_part mp i) = None"
  "newlines (new_text_part mp i) = None"
  "normalized_words (new_text_part mp i) = None"
  "normalized_hashes (new_text_part mp i) = None"
  by (simp_all add: new_text_part_def)

lemma set_part_utf_fields [simp]:
  "mime_part (set_part_utf u p) = mime_part p"
  "content (set_part_utf u p) = content p"
  "exceptions (set_part_utf u p) = exceptions p"
  "language (set_part_utf u p) = language p"
  "lang_code (set_part_utf u p) = lang_code p"
  "stripped_content (set_part_utf u p) = stripped_content p"
  "newlines (set_part_utf u p) = newlines p"
  "normalized_words (set_part_utf u p) = normalized_words p"
  "normalized_hashes (set_part_utf u p) = normalized_hashes p"
  "RSPAMD_MIME_TEXT_PART_FLAG_HTML \<in> tp_flags (set_part_utf u p) \<longleftrightarrow>
     RSPAMD_MIME_TEXT_PART_FLAG_HTML \<in> tp_flags p"
  "RSPAMD_MIME_TEXT_PART_FLAG_EMPTY \<in> tp_flags (set_part_utf u p) \<longleftrightarrow>
     RSPAMD_MIME_TEXT_PART_FLAG_EMPTY \<in> tp_flags p"
  by (auto simp: set_part_utf_def)

subsection \<open>Text parts without data\<close>

lemma html_text_part_empty:
  "parsed_data (parts task ! i) = [] \<Longrightarrow>
   html_text_part env task i =
     (add_text_part ((new_text_part (parts task ! i) i)\<lparr>tp_flags :=
        {RSPAMD_MIME_TEXT_PART_FLAG_EMPTY, RSPAMD_MIME_TEXT_PART_FLAG_HTML}\<rparr>) task, True)"
  by (simp add: html_text_part_def Let_def)

lemma plain_text_part_empty:
  "parsed_data (parts task ! i) = [] \<Longrightarrow>
   plain_text_part env task i =
     (add_text_part ((new_text_part (parts task ! i) i)\<lparr>tp_flags :=
        {RSPAMD_MIME_TEXT_PART_FLAG_EMPTY}\<rparr>) task, True)"
  by (simp add: plain_text_part_def Let_def)

text \<open>
  C10, as amended. A MIME part without parsed data that is not skipped as an attachment
  gets a text part with the flag \<^verbatim>\<open>EMPTY\<close> and without content, added at the end of
  the text parts of the task, and nothing else in the task changes: the MIME parts, and
  with them the flags and the payload of this MIME part, are as before.
\<close>

theorem process_text_part_empty:
  assumes "parsed_data (parts task ! i) = []"
    and "\<not> skip_attachment task (parts task ! i)"
  shows "\<exists>part. rspamd_message_process_text_part env task i =
             task\<lparr>text_parts := text_parts task @ [part]\<rparr> \<and>
           RSPAMD_MIME_TEXT_PART_FLAG_EMPTY \<in> tp_flags part \<and>
           mime_part part = i \<and> content part = None \<and>
           parts (rspamd_message_process_text_part env task i) = parts task"
proof -
  let ?html = "ct_subtype (the (ct (parts task ! i))) = ''html'' \<or>
               ct_subtype (the (ct (parts task ! i))) = ''xhtml''"
  let ?part = "(new_text_part (parts task ! i) i)\<lparr>tp_flags :=
                 (if ?html then {RSPAMD_MIME_TEXT_PART_FLAG_EMPTY, RSPAMD_MIME_TEXT_PART_FLAG_HTML}
                  else {RSPAMD_MIME_TEXT_PART_FLAG_EMPTY})\<rparr>"
  have "rspamd_message_process_text_part env task i = add_text_part ?part task"
    using assms
    by (simp add: rspamd_message_process_text_part_def make_text_part_def Let_def
        html_text_part_empty plain_text_part_empty)
  then have "rspamd_message_process_text_part env task i =
               task\<lparr>text_parts := text_parts task @ [?part]\<rparr> \<and>
             RSPAMD_MIME_TEXT_PART_FLAG_EMPTY \<in> tp_flags ?part \<and>
             mime_part ?part = i \<and> content ?part = None \<and>
             parts (rspamd_message_process_text_part env task i) = parts task"
    by (simp add: add_text_part_def)
  then show ?thesis
    by (rule exI)
qed

text \<open>
  C10 as it is stated fails for an attachment: with \<^verbatim>\<open>check_text_attachements\<close>
  off, a text attachment without data gets no text part.
\<close>

theorem process_text_part_empty_attachment:
  "parsed_data (parts ((example_part_task ''plain'' [])\<lparr>parts :=
       [(example_mime_part (example_text_ct ''plain'') None [])
          \<lparr>cd := Some \<lparr>cd_type = RSPAMD_CT_ATTACHMENT\<rparr>\<rparr>]\<rparr>) ! 0) = [] \<and>
   text_parts (rspamd_message_process_text_part example_env
     ((example_part_task ''plain'' [])\<lparr>parts :=
       [(example_mime_part (example_text_ct ''plain'') None [])
          \<lparr>cd := Some \<lparr>cd_type = RSPAMD_CT_ATTACHMENT\<rparr>\<rparr>]\<rparr>) 0) = []"
  by (simp add: rspamd_message_process_text_part_def skip_attachment_def
      example_part_task_def example_task_def example_mime_part_def example_config_def)

theorem process_text_part_empty_witness:
  "parsed_data (parts (example_part_task ''plain'' []) ! 0) = [] \<and>
   \<not> skip_attachment (example_part_task ''plain'' []) (parts (example_part_task ''plain'' []) ! 0) \<and>
   (\<exists>part. rspamd_message_process_text_part example_env (example_part_task ''plain'' []) 0 =
             (example_part_task ''plain'' [])\<lparr>text_parts :=
                text_parts (example_part_task ''plain'' []) @ [part]\<rparr> \<and>
           RSPAMD_MIME_TEXT_PART_FLAG_EMPTY \<in> tp_flags part \<and>
           mime_part part = 0 \<and> content part = None \<and>
           parts (rspamd_message_process_text_part example_env (example_part_task ''plain'' []) 0) =
             parts (example_part_task ''plain'' []))"
proof -
  have h1: "parsed_data (parts (example_part_task ''plain'' []) ! 0) = []"
    by (simp add: example_part_task_def example_mime_part_def)
  have h2: "\<not> skip_attachment (example_part_task ''plain'' [])
              (parts (example_part_task ''plain'' []) ! 0)"
    by (simp add: skip_attachment_def example_part_task_def example_mime_part_def)
  from h1 h2 process_text_part_empty [OF h1 h2, of example_env] show ?thesis
    by blast
qed

subsection \<open>Text parts with the GTUBE pattern\<close>

lemma rspamd_check_gtube_found:
  "rspamd_check_gtube task part =
     (if gtube_in_part part then
        (log_add (LOG_INFO, ''<%s>: gtube pattern has been found in part of length %ud'')
           (task\<lparr>task_flags := task_flags task \<union>
              {RSPAMD_TASK_FLAG_SKIP, RSPAMD_TASK_FLAG_GTUBE}\<rparr>), True)
      else (task, False))"
  by (simp add: rspamd_check_gtube_def gtube_in_part_def
      rspamd_substring_search_twoway_found split: option.splits)

text \<open>
  What the two branches have in common, for a part with data: one text part is added
  and the function goes on; the part has no language, no stripped content and no words
  or hashes yet; a part that is not HTML has no exceptions and the URLs of the task are
  as before.
\<close>

lemma html_text_part_data:
  assumes "parsed_data (parts task ! i) \<noteq> []"
  shows "snd (html_text_part env task i) = False \<and>
         text_parts (fst (html_text_part env task i)) =
           text_parts task @ [last (text_parts (fst (html_text_part env task i)))] \<and>
         parts (fst (html_text_part env task i)) = parts task \<and>
         IS_PART_HTML (last (text_parts (fst (html_text_part env task i)))) \<and>
         language (last (text_parts (fst (html_text_part env task i)))) = None \<and>
         lang_code (last (text_parts (fst (html_text_part env task i)))) = None \<and>
         stripped_content (last (text_parts (fst (html_text_part env task i)))) = None \<and>
         newlines (last (text_parts (fst (html_text_part env task i)))) = None \<and>
         normalized_words (last (text_parts (fst (html_text_part env task i)))) = None \<and>
         normalized_hashes (last (text_parts (fst (html_text_part env task i)))) = None"
  using assms
  by (simp add: html_text_part_def Let_def IS_PART_HTML_def split: prod.splits)

lemma plain_text_part_data:
  assumes "parsed_data (parts task ! i) \<noteq> []"
  shows "snd (plain_text_part env task i) = False \<and>
         text_parts (fst (plain_text_part env task i)) =
           text_parts task @ [last (text_parts (fst (plain_text_part env task i)))] \<and>
         parts (fst (plain_text_part env task i)) = parts task \<and>
         urls (fst (plain_text_part env task i)) = urls task \<and>
         exceptions (last (text_parts (fst (plain_text_part env task i)))) = [] \<and>
         language (last (text_parts (fst (plain_text_part env task i)))) = None \<and>
         lang_code (last (text_parts (fst (plain_text_part env task i)))) = None \<and>
         stripped_content (last (text_parts (fst (plain_text_part env task i)))) = None \<and>
         newlines (last (text_parts (fst (plain_text_part env task i)))) = None \<and>
         normalized_words (last (text_parts (fst (plain_text_part env task i)))) = None \<and>
         normalized_hashes (last (text_parts (fst (plain_text_part env task i)))) = None"
  using assms
  by (simp add: plain_text_part_def Let_def split: prod.splits)

lemma make_text_part_data:
  assumes "parsed_data (parts task ! i) \<noteq> []"
  shows "snd (make_text_part env task i) = False"
    and "text_parts (fst (make_text_part env task i)) =
           text_parts task @ [converted_text_part env task i]"
    and "parts (fst (make_text_part env task i)) = parts task"
    and "language (converted_text_part env task i) = None"
    and "lang_code (converted_text_part env task i) = None"
    and "stripped_content (converted_text_part env task i) = None"
    and "newlines (converted_text_part env task i) = None"
    and "normalized_words (converted_text_part env task i) = None"
    and "normalized_hashes (converted_text_part env task i) = None"
    and "\<not> IS_PART_HTML (converted_text_part env task i) \<Longrightarrow>
           urls (fst (make_text_part env task i)) = urls task \<and>
           exceptions (converted_text_part env task i) = []"
  using html_text_part_data [OF assms, of env] plain_text_part_data [OF assms, of env]
  by (auto simp: make_text_part_def converted_text_part_def split: if_splits)

text \<open>
  C9. When the GTUBE check finds the pattern in the part that has been made for a MIME
  part, the function records the result and returns: the text part stays as the
  conversion has left it, the last of the text parts, without language, language code,
  stripped content, newlines, words or hashes; the flags \<^verbatim>\<open>SKIP\<close> and
  \<^verbatim>\<open>GTUBE\<close> are set, the action is \<^verbatim>\<open>Reject\<close> with its message, and the
  symbol is inserted. The URLs of the task are those that the conversion has left: for
  a part that is not HTML the URLs of the task are untouched and the part has no
  exceptions.
\<close>

theorem process_text_part_gtube_returns:
  assumes "\<not> skip_attachment task (parts task ! i)"
    and "parsed_data (parts task ! i) \<noteq> []"
    and "gtube_in_part (converted_text_part env task i)"
  shows "text_parts (rspamd_message_process_text_part env task i) =
           text_parts task @ [converted_text_part env task i] \<and>
         language (converted_text_part env task i) = None \<and>
         lang_code (converted_text_part env task i) = None \<and>
         stripped_content (converted_text_part env task i) = None \<and>
         newlines (converted_text_part env task i) = None \<and>
         normalized_words (converted_text_part env task i) = None \<and>
         normalized_hashes (converted_text_part env task i) = None \<and>
         {RSPAMD_TASK_FLAG_SKIP, RSPAMD_TASK_FLAG_GTUBE} \<subseteq>
           task_flags (rspamd_message_process_text_part env task i) \<and>
         pre_result_action (rspamd_message_process_text_part env task i) = METRIC_ACTION_REJECT \<and>
         pre_result_str (rspamd_message_process_text_part env task i) = Some ''Gtube pattern'' \<and>
         (''GTUBE'', 0) \<in> set (symbols (rspamd_message_process_text_part env task i)) \<and>
         urls (rspamd_message_process_text_part env task i) =
           urls (fst (make_text_part env task i)) \<and>
         (\<not> IS_PART_HTML (converted_text_part env task i) \<longrightarrow>
            urls (rspamd_message_process_text_part env task i) = urls task \<and>
            exceptions (converted_text_part env task i) = [])"
proof -
  obtain task1 where made: "make_text_part env task i = (task1, False)"
    using make_text_part_data(1) [OF assms(2), of env]
    by (cases "make_text_part env task i") simp
  have tps: "text_parts task1 = text_parts task @ [converted_text_part env task i]"
    using make_text_part_data(2) [OF assms(2), of env] made by simp
  have urls1: "\<not> IS_PART_HTML (converted_text_part env task i) \<Longrightarrow> urls task1 = urls task"
    using make_text_part_data(10) [OF assms(2), of env] made by simp
  let ?task2 = "task1\<lparr>parts := (parts task1)[i :=
                  (parts task1 ! i)\<lparr>mp_flags :=
                     insert RSPAMD_MIME_PART_TEXT (mp_flags (parts task1 ! i)),
                   specific := SPECIFIC_TXT (length (text_parts task))\<rparr>]\<rparr>"
  let ?task3 = "log_add (LOG_INFO, ''<%s>: gtube pattern has been found in part of length %ud'')
                  (?task2\<lparr>task_flags := task_flags ?task2 \<union>
                     {RSPAMD_TASK_FLAG_SKIP, RSPAMD_TASK_FLAG_GTUBE}\<rparr>)"
  have nth: "text_parts ?task2 ! length (text_parts task) = converted_text_part env task i"
    using tps by simp
  have res: "rspamd_message_process_text_part env task i = gtube_found env ?task3"
    using assms(1) assms(3) made nth
    by (simp add: rspamd_message_process_text_part_def Let_def rspamd_check_gtube_found)
  have "text_parts (gtube_found env ?task3) = text_parts task @ [converted_text_part env task i]"
    using tps by simp
  moreover have "{RSPAMD_TASK_FLAG_SKIP, RSPAMD_TASK_FLAG_GTUBE} \<subseteq>
      task_flags (gtube_found env ?task3)"
    by simp
  moreover have "\<not> IS_PART_HTML (converted_text_part env task i) \<Longrightarrow>
      urls (gtube_found env ?task3) = urls task"
    using urls1 by simp
  moreover have "urls (gtube_found env ?task3) = urls (fst (make_text_part env task i))"
    using made by simp
  ultimately show ?thesis
    using make_text_part_data(4-10) [OF assms(2), of env] res
    by simp
qed

text \<open>
  An instance: a \<^verbatim>\<open>text/plain\<close> part whose data is the pattern and the two
  characters of a line end, 70 bytes.
\<close>

theorem process_text_part_gtube_returns_witness:
  "\<not> skip_attachment (example_part_task ''plain'' (gtube_pattern @ [CHR 0x0D, CHR 0x0A]))
       (parts (example_part_task ''plain'' (gtube_pattern @ [CHR 0x0D, CHR 0x0A])) ! 0) \<and>
   parsed_data (parts (example_part_task ''plain'' (gtube_pattern @ [CHR 0x0D, CHR 0x0A])) ! 0)
     \<noteq> [] \<and>
   gtube_in_part (converted_text_part example_env
     (example_part_task ''plain'' (gtube_pattern @ [CHR 0x0D, CHR 0x0A])) 0) \<and>
   text_parts (rspamd_message_process_text_part example_env
       (example_part_task ''plain'' (gtube_pattern @ [CHR 0x0D, CHR 0x0A])) 0) =
     [converted_text_part example_env
        (example_part_task ''plain'' (gtube_pattern @ [CHR 0x0D, CHR 0x0A])) 0] \<and>
   normalized_hashes (converted_text_part example_env
     (example_part_task ''plain'' (gtube_pattern @ [CHR 0x0D, CHR 0x0A])) 0) = None \<and>
   language (converted_text_part example_env
     (example_part_task ''plain'' (gtube_pattern @ [CHR 0x0D, CHR 0x0A])) 0) = None \<and>
   pre_result_action (rspamd_message_process_text_part example_env
       (example_part_task ''plain'' (gtube_pattern @ [CHR 0x0D, CHR 0x0A])) 0) =
     METRIC_ACTION_REJECT"
proof -
  let ?task = "example_part_task ''plain'' (gtube_pattern @ [CHR 0x0D, CHR 0x0A])"
  have h1: "\<not> skip_attachment ?task (parts ?task ! 0)"
    by (simp add: skip_attachment_def example_part_task_def example_mime_part_def)
  have h2: "parsed_data (parts ?task ! 0) \<noteq> []"
    by (simp add: example_part_task_def example_mime_part_def)
  have "sublist gtube_pattern ([] @ gtube_pattern @ [CHR 0x0D, CHR 0x0A])"
    by (rule sublist_appendI)
  then have h3: "gtube_in_part (converted_text_part example_env ?task 0)"
    by (simp add: gtube_in_part_def converted_text_part_def make_text_part_def
        plain_text_part_def example_part_task_def example_mime_part_def example_text_ct_def
        example_env_def Let_def add_text_part_def set_part_utf_def new_text_part_def
        sizeof_gtube_pattern_def max_check_size_def length_gtube_pattern)
  have "text_parts ?task = []"
    by (simp add: example_part_task_def example_task_def)
  with h1 h2 h3 process_text_part_gtube_returns [OF h1 h2 h3] show ?thesis
    by simp
qed

subsection \<open>Words and hashes\<close>











subsection \<open>The distance between two parts\<close>

lemma set_variable_fields [simp]:
  "task_flags (set_variable n v t) = task_flags t"
  "msg (set_variable n v t) = msg t"
  "err (set_variable n v t) = err t"
  "message_id (set_variable n v t) = message_id t"
  "raw_headers (set_variable n v t) = raw_headers t"
  "parts (set_variable n v t) = parts t"
  "text_parts (set_variable n v t) = text_parts t"
  "variables (set_variable n v t) = (variables t)(n \<mapsto> v)"
  "log (set_variable n v t) = log t"
  by (simp_all add: set_variable_def)

lemma calculate_distance_two_parts:
  "two_alternative_parts task h1 h2 \<Longrightarrow> calculate_distance task = publish_distance task h1 h2"
  by (auto simp: two_alternative_parts_def calculate_distance_def Let_def split: option.splits)

text \<open>The sum of the two lengths as a \<^verbatim>\<open>guint\<close>, when it does not wrap around.\<close>

lemma garray_len_sum:
  assumes "length h1 + length h2 < 2 ^ 32"
  shows "unat (garray_len h1 + garray_len h2 :: guint) = length h1 + length h2"
proof -
  have "unat (garray_len h1 :: guint) = length h1" "unat (garray_len h2 :: guint) = length h2"
    using assms by (simp_all add: garray_len_def unat_of_nat)
  with assms show ?thesis
    by (simp add: unat_word_ariths)
qed

lemma garray_len_sum_over_limit:
  assumes "8192 < length h1 + length h2" and "length h1 + length h2 < 2 ^ 32"
  shows "max_words < garray_len h1 + garray_len h2"
  using assms garray_len_sum [OF assms(2)]
  by (simp add: word_less_nat_alt max_words_def)

lemma garray_len_sum_positive:
  assumes "0 < length h1 + length h2" and "length h1 + length h2 < 2 ^ 32"
  shows "0 < garray_len h1 + garray_len h2"
  using assms garray_len_sum [OF assms(2)]
  by (simp add: word_less_nat_alt)

lemma publish_distance_variables:
  assumes "0 < length h1 + length h2" and "length h1 + length h2 < 2 ^ 32"
  shows "variables (publish_distance task h1 h2) =
           (variables task)
             (''parts_distance'' \<mapsto>
                POOL_DOUBLE (real (unat (fst (rspamd_words_levenshtein_distance h1 h2))) /
                             real (length h1 + length h2)),
              ''total_words'' \<mapsto> POOL_UINT (of_nat (length h1 + length h2)))"
    and "log (publish_distance task h1 h2) =
           log task @ snd (rspamd_words_levenshtein_distance h1 h2) @
             [(LOG_DEBUG,
               ''different words: %d, total words: %d, got diff between parts of %.2f'')]"
proof -
  have pos: "0 < garray_len h1 + garray_len h2"
    using assms by (rule garray_len_sum_positive)
  have tw: "garray_len h1 + garray_len h2 = (of_nat (length h1 + length h2) :: guint)"
    by (simp add: garray_len_def)
  show "variables (publish_distance task h1 h2) =
           (variables task)
             (''parts_distance'' \<mapsto>
                POOL_DOUBLE (real (unat (fst (rspamd_words_levenshtein_distance h1 h2))) /
                             real (length h1 + length h2)),
              ''total_words'' \<mapsto> POOL_UINT (of_nat (length h1 + length h2)))"
    using pos garray_len_sum [OF assms(2)]
    by (simp add: publish_distance_def Let_def case_prod_beta tw)
  show "log (publish_distance task h1 h2) =
           log task @ snd (rspamd_words_levenshtein_distance h1 h2) @
             [(LOG_DEBUG,
               ''different words: %d, total words: %d, got diff between parts of %.2f'')]"
    using pos
    by (simp add: publish_distance_def Let_def case_prod_beta)
qed

lemma levenshtein_over_limit:
  assumes "8192 < length h1 + length h2" and "length h1 + length h2 < 2 ^ 32"
  shows "rspamd_words_levenshtein_distance h1 h2 =
           (0, [(LOG_ERR, ''cannot compare parts with more than %ud words: %ud'')])"
  using garray_len_sum_over_limit [OF assms]
  by (simp add: rspamd_words_levenshtein_distance_def Let_def)

text \<open>
  C2, as amended. When the two parts have more than 8192 hashes together, the distance
  function does not run its loops: it writes an error to the log and returns 0. The
  orchestrator publishes this result as it does any other: \<^verbatim>\<open>parts_distance\<close> is
  set to 0 and \<^verbatim>\<open>total_words\<close> to the number of hashes.
\<close>

theorem calculate_distance_over_limit:
  assumes "two_alternative_parts task h1 h2"
    and "8192 < length h1 + length h2"
    and "length h1 + length h2 < 2 ^ 32"
  shows "rspamd_words_levenshtein_distance h1 h2 =
           (0, [(LOG_ERR, ''cannot compare parts with more than %ud words: %ud'')]) \<and>
         (LOG_ERR, ''cannot compare parts with more than %ud words: %ud'') \<in>
           set (log (calculate_distance task)) \<and>
         variables (calculate_distance task) ''parts_distance'' = Some (POOL_DOUBLE 0) \<and>
         variables (calculate_distance task) ''total_words'' =
           Some (POOL_UINT (of_nat (length h1 + length h2)))"
proof -
  have pos: "0 < length h1 + length h2"
    using assms(2) by arith
  show ?thesis
    using levenshtein_over_limit [OF assms(2,3)]
      publish_distance_variables [OF pos assms(3), of task]
    by (simp add: calculate_distance_two_parts [OF assms(1)])
qed

lemma example_two_alternative_parts:
  "two_alternative_parts (example_alternative_task h1 h2) h1 h2"
  by (simp add: two_alternative_parts_def example_alternative_task_def example_task_def
      example_hashed_part_def example_mime_part_def IS_PART_EMPTY_def new_text_part_def)

lemma example_alternative_task_variables:
  "variables (example_alternative_task h1 h2) = Map.empty"
  by (simp add: example_alternative_task_def example_task_def)

text \<open>
  C2 as it is stated fails: for parts of 8192 hashes and of 1 hash the variable
  \<^verbatim>\<open>parts_distance\<close>, which the task did not have, is set.
\<close>

theorem calculate_distance_over_limit_publishes:
  "8192 < length (replicate 8192 (0 :: guint64)) + length [0 :: guint64] \<and>
   two_alternative_parts (example_alternative_task (replicate 8192 0) [0]) (replicate 8192 0) [0] \<and>
   variables (example_alternative_task (replicate 8192 0) [0]) ''parts_distance'' = None \<and>
   variables (calculate_distance (example_alternative_task (replicate 8192 0) [0]))
     ''parts_distance'' = Some (POOL_DOUBLE 0)"
proof -
  have big: "8192 < length (replicate 8192 (0 :: guint64)) + length [0 :: guint64]"
    by simp
  have fits: "length (replicate 8192 (0 :: guint64)) + length [0 :: guint64] < 2 ^ 32"
    by simp
  have pos: "0 < length (replicate 8192 (0 :: guint64)) + length [0 :: guint64]"
    by simp
  show ?thesis
    using levenshtein_over_limit [OF big fits]
      publish_distance_variables(1) [OF pos fits, of "example_alternative_task (replicate 8192 0) [0]"]
    by (simp add: calculate_distance_two_parts [OF example_two_alternative_parts]
        example_two_alternative_parts example_alternative_task_variables)
qed

theorem calculate_distance_over_limit_witness:
  "two_alternative_parts (example_alternative_task (replicate 8192 0) [0]) (replicate 8192 0) [0] \<and>
   8192 < length (replicate 8192 (0 :: guint64)) + length [0 :: guint64] \<and>
   length (replicate 8192 (0 :: guint64)) + length [0 :: guint64] < 2 ^ 32 \<and>
   (LOG_ERR, ''cannot compare parts with more than %ud words: %ud'') \<in>
     set (log (calculate_distance (example_alternative_task (replicate 8192 0) [0]))) \<and>
   variables (calculate_distance (example_alternative_task (replicate 8192 0) [0]))
     ''total_words'' = Some (POOL_UINT 8193)"
proof -
  have big: "8192 < length (replicate 8192 (0 :: guint64)) + length [0 :: guint64]"
    by simp
  have fits: "length (replicate 8192 (0 :: guint64)) + length [0 :: guint64] < 2 ^ 32"
    by simp
  from calculate_distance_over_limit [OF example_two_alternative_parts big fits]
    example_two_alternative_parts big fits
  show ?thesis by simp
qed

lemma levenshtein_example:
  "rspamd_words_levenshtein_distance [1, 2, 3] [1, 2, 4] = (2, [])"
  by code_simp

text \<open>
  C3, as amended. When the distance of two such parts is computed (they have at least
  one hash together), two variables are set: \<^verbatim>\<open>parts_distance\<close>, the quotient of
  the distance by the number of hashes, and \<^verbatim>\<open>total_words\<close>, the number of hashes
  of the two parts. No other variable changes: the distance itself is written to the
  log only.
\<close>

theorem calculate_distance_publishes:
  assumes "two_alternative_parts task h1 h2"
    and "0 < length h1 + length h2"
    and "length h1 + length h2 < 2 ^ 32"
  shows "variables (calculate_distance task) =
           (variables task)
             (''parts_distance'' \<mapsto>
                POOL_DOUBLE (real (unat (fst (rspamd_words_levenshtein_distance h1 h2))) /
                             real (length h1 + length h2)),
              ''total_words'' \<mapsto> POOL_UINT (of_nat (length h1 + length h2)))"
  using publish_distance_variables(1) [OF assms(2,3), of task]
  by (simp only: calculate_distance_two_parts [OF assms(1)])

text \<open>
  C3 as it is stated fails: for the hashes 1, 2, 3 and 1, 2, 4 the distance is 2, and
  the variables of the task are \<^verbatim>\<open>parts_distance\<close>, one third, and
  \<^verbatim>\<open>total_words\<close>, 6; the number 2 is in neither.
\<close>

theorem calculate_distance_publishes_total_words:
  "fst (rspamd_words_levenshtein_distance [1, 2, 3] [1, 2, 4]) = 2 \<and>
   dom (variables (calculate_distance (example_alternative_task [1, 2, 3] [1, 2, 4]))) =
     {''parts_distance'', ''total_words''} \<and>
   variables (calculate_distance (example_alternative_task [1, 2, 3] [1, 2, 4]))
     ''parts_distance'' = Some (POOL_DOUBLE (1 / 3)) \<and>
   variables (calculate_distance (example_alternative_task [1, 2, 3] [1, 2, 4]))
     ''total_words'' = Some (POOL_UINT 6)"
proof -
  have pos: "0 < length [1, 2, 3 :: guint64] + length [1, 2, 4 :: guint64]"
    by simp
  have fits: "length [1, 2, 3 :: guint64] + length [1, 2, 4 :: guint64] < 2 ^ 32"
    by simp
  show ?thesis
    using publish_distance_variables(1) [OF pos fits,
        of "example_alternative_task [1, 2, 3] [1, 2, 4]"]
    by (auto simp: calculate_distance_two_parts [OF example_two_alternative_parts]
        example_alternative_task_variables levenshtein_example)
qed

theorem calculate_distance_publishes_witness:
  "two_alternative_parts (example_alternative_task [1, 2, 3] [1, 2, 4]) [1, 2, 3] [1, 2, 4] \<and>
   0 < length [1, 2, 3 :: guint64] + length [1, 2, 4 :: guint64] \<and>
   length [1, 2, 3 :: guint64] + length [1, 2, 4 :: guint64] < 2 ^ 32 \<and>
   variables (calculate_distance (example_alternative_task [1, 2, 3] [1, 2, 4])) =
     [''parts_distance'' \<mapsto> POOL_DOUBLE (1 / 3), ''total_words'' \<mapsto> POOL_UINT 6]"
proof -
  have pos: "0 < length [1, 2, 3 :: guint64] + length [1, 2, 4 :: guint64]"
    by simp
  have fits: "length [1, 2, 3 :: guint64] + length [1, 2, 4 :: guint64] < 2 ^ 32"
    by simp
  from calculate_distance_publishes [OF example_two_alternative_parts pos fits]
    example_two_alternative_parts
  show ?thesis
    by (simp add: levenshtein_example example_alternative_task_variables)
qed

subsection \<open>What the processing of the parts leaves unchanged\<close>

text \<open>
  The message, the message id, the error and the headers of the task are written by
  the first stages of the orchestrator only.
\<close>

lemma same_message_refl [simp]: "same_message t t"
  by (simp add: same_message_def)

lemma same_message_trans: "same_message t t' \<Longrightarrow> same_message t' t'' \<Longrightarrow> same_message t t''"
  by (simp add: same_message_def)

lemma same_message_log_add [simp]: "same_message t (log_add e t)"
  by (simp add: same_message_def)

lemma same_message_set_text_part [simp]: "same_message t (set_text_part n p t)"
  by (simp add: same_message_def)

lemma same_message_add_text_part [simp]: "same_message t (add_text_part p t)"
  by (simp add: same_message_def)

lemma same_message_gtube_found [simp]: "same_message t (gtube_found env t)"
  by (simp add: same_message_def)

lemma same_message_set_variable [simp]: "same_message t (set_variable n v t)"
  by (simp add: same_message_def)

lemma same_message_extract_words:
  "same_message t (fst (rspamd_extract_words env t p))"
  by (simp add: rspamd_extract_words_def Let_def case_prod_beta split: option.splits)

lemma same_message_check_gtube: "same_message t (fst (rspamd_check_gtube t p))"
  by (simp add: rspamd_check_gtube_found same_message_def)

lemma same_message_html_text_part: "same_message t (fst (html_text_part env t i))"
  by (simp add: html_text_part_def Let_def case_prod_beta same_message_def)

lemma same_message_plain_text_part: "same_message t (fst (plain_text_part env t i))"
  by (simp add: plain_text_part_def Let_def case_prod_beta same_message_def)

lemma same_message_make_text_part: "same_message t (fst (make_text_part env t i))"
  by (simp add: make_text_part_def same_message_html_text_part same_message_plain_text_part)

lemma same_message_post_process: "same_message t (post_process_text_part env t n)"
proof -
  have step: "same_message t (fst (rspamd_extract_words env t' p))" if "same_message t t'"
    for t' p
    using that same_message_extract_words [of t' env p] by (rule same_message_trans)
  show ?thesis
    unfolding post_process_text_part_def Let_def case_prod_beta
    by (simp add: same_message_def step [unfolded same_message_def])
qed

lemma same_message_process_text_part:
  "same_message t (rspamd_message_process_text_part env t i)"
proof -
  have made: "same_message t (fst (make_text_part env t i))"
    by (rule same_message_make_text_part)
  let ?t2 = "(fst (make_text_part env t i))\<lparr>parts := (parts (fst (make_text_part env t i)))[i :=
               (parts (fst (make_text_part env t i)) ! i)\<lparr>mp_flags :=
                  insert RSPAMD_MIME_PART_TEXT (mp_flags (parts (fst (make_text_part env t i)) ! i)),
                specific := SPECIFIC_TXT (length (text_parts t))\<rparr>]\<rparr>"
  have t2: "same_message t ?t2"
    using made by (simp add: same_message_def)
  have t3: "same_message t (fst (rspamd_check_gtube ?t2 p))" for p
    using t2 same_message_check_gtube by (rule same_message_trans)
  have found: "same_message t (gtube_found env (fst (rspamd_check_gtube ?t2 p)))" for p
    using t3 same_message_gtube_found by (rule same_message_trans)
  have post: "same_message t (post_process_text_part env (fst (rspamd_check_gtube ?t2 p)) n)"
    for p n
    using t3 same_message_post_process by (rule same_message_trans)
  show ?thesis
    unfolding rspamd_message_process_text_part_def Let_def case_prod_beta
    using made found post by simp
qed

lemma same_message_fold_parts:
  "same_message t
     (fold (\<lambda>i t. if IS_CT_TEXT (ct (parts t ! i))
                  then rspamd_message_process_text_part env t i else t) is t)"
proof (induction "is" arbitrary: t)
  case Nil
  show ?case by simp
next
  case (Cons i "is")
  let ?t' = "if IS_CT_TEXT (ct (parts t ! i))
             then rspamd_message_process_text_part env t i else t"
  have "same_message t ?t'"
    by (simp add: same_message_process_text_part)
  then have "same_message t
     (fold (\<lambda>i t. if IS_CT_TEXT (ct (parts t ! i))
                  then rspamd_message_process_text_part env t i else t) is ?t')"
    using Cons.IH [of ?t'] by (rule same_message_trans)
  then show ?case
    by (simp only: fold_simps)
qed

lemma same_message_process_parts: "same_message t (process_parts env t)"
  unfolding process_parts_def by (rule same_message_fold_parts)

lemma same_message_process_images_archives:
  "same_message t (process_images_archives env t)"
  by (simp add: process_images_archives_def mark_parts_def Let_def same_message_def)

lemma same_message_subject_urls: "same_message t (subject_urls env t)"
  by (simp add: subject_urls_def same_message_def split: option.splits)

lemma same_message_publish_distance: "same_message t (publish_distance t h1 h2)"
  by (simp add: publish_distance_def Let_def case_prod_beta same_message_def)

lemma same_message_calculate_distance: "same_message t (calculate_distance t)"
  by (simp add: calculate_distance_def Let_def same_message_publish_distance)

lemma same_message_log_loaded: "same_message t (log_loaded t)"
  by (simp add: log_loaded_def)

lemma save_subject_fields [simp]:
  "msg (save_subject t) = msg t"
  "message_id (save_subject t) = message_id t"
  "err (save_subject t) = err t"
  "raw_headers (save_subject t) = raw_headers t"
  by (simp_all add: save_subject_def Let_def split: option.splits)

lemma save_message_id_fields [simp]:
  "msg (save_message_id t) = msg t"
  "err (save_message_id t) = err t"
  "raw_headers (save_message_id t) = raw_headers t"
  by (simp_all add: save_message_id_def Let_def split: option.splits)

text \<open>The stages after the message id has been saved.\<close>

lemma same_message_later_stages:
  "same_message t (log_loaded (calculate_distance (subject_urls env
     (process_images_archives env (process_parts env (save_subject t))))))"
proof -
  have "same_message t (save_subject t)"
    by (simp add: same_message_def)
  then have "same_message t (process_parts env (save_subject t))"
    using same_message_process_parts by (rule same_message_trans)
  then have "same_message t (process_images_archives env (process_parts env (save_subject t)))"
    using same_message_process_images_archives by (rule same_message_trans)
  then have "same_message t (subject_urls env
     (process_images_archives env (process_parts env (save_subject t))))"
    using same_message_subject_urls by (rule same_message_trans)
  then have "same_message t (calculate_distance (subject_urls env
     (process_images_archives env (process_parts env (save_subject t)))))"
    using same_message_calculate_distance by (rule same_message_trans)
  then show ?thesis
    using same_message_log_loaded by (rule same_message_trans)
qed

subsection \<open>The first stages of the orchestrator\<close>

lemma skip_spaces_dropWhile: "skip_spaces m = dropWhile g_ascii_isspace m"
  by (induction m) simp_all

lemma skip_to_newline_dropWhile: "skip_to_newline m = dropWhile (\<lambda>c. c \<noteq> CHR 0x0A) m"
  by (induction m) simp_all

lemma skip_mbox_envelope_fields [simp]:
  "task_flags (skip_mbox_envelope t) = task_flags t"
  "cfg (skip_mbox_envelope t) = cfg t"
  "err (skip_mbox_envelope t) = err t"
  "message_id (skip_mbox_envelope t) = message_id t"
  "raw_headers (skip_mbox_envelope t) = raw_headers t"
  by (simp_all add: skip_mbox_envelope_def Let_def)

lemma skip_mbox_envelope_msg:
  "msg (skip_mbox_envelope t) = trimmed_message (mbox_handling t) (msg t)"
  by (auto simp: skip_mbox_envelope_def trimmed_message_def mbox_handling_def Let_def
      skip_spaces_dropWhile skip_to_newline_dropWhile)

lemma rspamd_message_from_data_fields [simp]:
  "msg (rspamd_message_from_data env t start) = msg t"
  "err (rspamd_message_from_data env t start) = err t"
  "raw_headers (rspamd_message_from_data env t start) = raw_headers t"
  "message_id (rspamd_message_from_data env t start) =
     Some (rspamd_mime_message_id_generate env ''localhost.localdomain'')"
  by (simp_all add: rspamd_message_from_data_def Let_def)

text \<open>What \<^verbatim>\<open>construct_mime\<close> returns and what it leaves in the task.\<close>

lemma construct_mime_result:
  "snd (construct_mime env (skip_mbox_envelope t)) \<longleftrightarrow>
     \<not> (RSPAMD_TASK_FLAG_MIME \<in> task_flags t \<and> \<not> mp_ok (mime_result env t) \<and>
        forbids_raw_input t)"
  by (simp add: construct_mime_def mime_result_def forbids_raw_input_def Let_def
      split: option.splits)

lemma construct_mime_msg:
  "msg (fst (construct_mime env t)) = msg t"
  by (simp add: construct_mime_def Let_def split: option.splits)

lemma construct_mime_err:
  "\<not> snd (construct_mime env (skip_mbox_envelope t)) \<Longrightarrow>
   err (fst (construct_mime env (skip_mbox_envelope t))) =
     (case mp_err (mime_result env t) of Some e \<Rightarrow> Some e | None \<Rightarrow> err t)"
  by (simp add: construct_mime_def mime_result_def Let_def split: option.splits if_splits)

lemma construct_mime_headers:
  "raw_headers (fst (construct_mime env (skip_mbox_envelope t))) = headers_after_parse env t"
  by (simp add: construct_mime_def mime_result_def headers_after_parse_def Let_def
      split: option.splits)

lemma construct_mime_message_id:
  "snd (construct_mime env (skip_mbox_envelope t)) \<Longrightarrow>
   message_id (fst (construct_mime env (skip_mbox_envelope t))) =
     (if made_from_data env t
      then Some (rspamd_mime_message_id_generate env ''localhost.localdomain'')
      else message_id t)"
  by (simp add: construct_mime_def mime_result_def made_from_data_def Let_def
      split: option.splits if_splits)

text \<open>The orchestrator, seen from its result and from the three fields.\<close>

lemma rspamd_message_parse_snd:
  "snd (rspamd_message_parse env t) \<longleftrightarrow>
     RSPAMD_TASK_IS_EMPTY t \<or> snd (construct_mime env (skip_mbox_envelope t))"
  by (simp add: rspamd_message_parse_def case_prod_beta)

lemma rspamd_message_parse_same_message:
  assumes "\<not> RSPAMD_TASK_IS_EMPTY t"
  shows "same_message
     (if snd (construct_mime env (skip_mbox_envelope t))
      then save_message_id (fst (construct_mime env (skip_mbox_envelope t)))
      else fst (construct_mime env (skip_mbox_envelope t)))
     (fst (rspamd_message_parse env t))"
  using assms same_message_later_stages
  by (simp add: rspamd_message_parse_def case_prod_beta)

lemma rspamd_message_parse_empty:
  "RSPAMD_TASK_IS_EMPTY t \<Longrightarrow> rspamd_message_parse env t = (t, True)"
  by (simp add: rspamd_message_parse_def)

lemma rspamd_message_parse_headers:
  assumes "\<not> RSPAMD_TASK_IS_EMPTY t"
  shows "raw_headers (fst (rspamd_message_parse env t)) = headers_after_parse env t"
  using rspamd_message_parse_same_message [OF assms, of env]
  by (simp add: same_message_def construct_mime_headers split: if_splits)

lemma rspamd_message_parse_msg:
  assumes "\<not> RSPAMD_TASK_IS_EMPTY t"
  shows "msg (fst (rspamd_message_parse env t)) = trimmed_message (mbox_handling t) (msg t)"
  using rspamd_message_parse_same_message [OF assms, of env]
  by (simp add: same_message_def construct_mime_msg skip_mbox_envelope_msg split: if_splits)

subsection \<open>The message that is parsed\<close>

lemma vertical_tab_not_skipped:
  "skip_spaces (CHR 0x0B # '' From x'') = CHR 0x0B # '' From x''"
  by (simp add: g_ascii_isspace_def)

text \<open>
  C8, as amended. For a task that is not empty, the orchestrator first replaces the
  message by the trimmed message: without its leading whitespace and, when the task is
  not flagged as JSON or is flagged as coming from a local client, and what is left is
  longer than the five bytes \<^verbatim>\<open>From \<close> and begins with them, without everything
  up to the next line feed and the whitespace that follows. The task keeps that
  message, and the MIME parser works on it: there is a task with the trimmed message
  such that, whatever the parser is, the orchestrator on a task flagged as MIME
  succeeds exactly when the parser succeeds on that task or raw input is not forbidden,
  and leaves in the task the headers that the parser has found in that task.
\<close>

theorem rspamd_message_parse_trims:
  assumes "\<not> RSPAMD_TASK_IS_EMPTY task"
  shows "\<exists>given. msg given = trimmed_message (mbox_handling task) (msg task) \<and>
           (\<forall>env. msg (fst (rspamd_message_parse env task)) =
                    trimmed_message (mbox_handling task) (msg task) \<and>
                  (RSPAMD_TASK_FLAG_MIME \<in> task_flags task \<longrightarrow>
                     (snd (rspamd_message_parse env task) \<longleftrightarrow>
                        mp_ok (rspamd_mime_parse_task env given) \<or> \<not> forbids_raw_input task) \<and>
                     raw_headers (fst (rspamd_message_parse env task)) =
                       mp_headers (rspamd_mime_parse_task env given)))"
proof -
  let ?given = "log_add (LOG_DEBUG, ''construct mime parser from string length %d'')
                  (skip_mbox_envelope task)"
  have given: "msg ?given = trimmed_message (mbox_handling task) (msg task)"
    by (simp add: skip_mbox_envelope_msg)
  have "msg (fst (rspamd_message_parse env task)) =
          trimmed_message (mbox_handling task) (msg task) \<and>
        (RSPAMD_TASK_FLAG_MIME \<in> task_flags task \<longrightarrow>
           (snd (rspamd_message_parse env task) \<longleftrightarrow>
              mp_ok (rspamd_mime_parse_task env ?given) \<or> \<not> forbids_raw_input task) \<and>
           raw_headers (fst (rspamd_message_parse env task)) =
             mp_headers (rspamd_mime_parse_task env ?given))" for env
  proof -
    have result: "snd (rspamd_message_parse env task) \<longleftrightarrow>
        \<not> (RSPAMD_TASK_FLAG_MIME \<in> task_flags task \<and>
           \<not> mp_ok (rspamd_mime_parse_task env ?given) \<and> forbids_raw_input task)"
      using assms
      by (simp add: rspamd_message_parse_snd construct_mime_result mime_result_def)
    have headers: "RSPAMD_TASK_FLAG_MIME \<in> task_flags task \<Longrightarrow>
        raw_headers (fst (rspamd_message_parse env task)) =
          mp_headers (rspamd_mime_parse_task env ?given)"
      by (simp add: rspamd_message_parse_headers [OF assms] headers_after_parse_def
          mime_result_def)
    from result headers rspamd_message_parse_msg [OF assms, of env] show ?thesis
      by blast
  qed
  with given show ?thesis
    by blast
qed

lemma example_task_fields [simp]:
  "task_flags (example_task fl m) = fl"
  "msg (example_task fl m) = m"
  "cfg (example_task fl m) = Some example_config"
  "err (example_task fl m) = None"
  "message_id (example_task fl m) = None"
  "raw_headers (example_task fl m) = Map.empty"
  by (simp_all add: example_task_def)

text \<open>
  C8 as it is stated fails for the message \<^verbatim>\<open>From \<close>: it begins with these five
  bytes and the handling of a mailbox line is on, but nothing is skipped, where the
  skipping would leave the empty message.
\<close>

theorem rspamd_message_parse_keeps_short_from:
  "\<not> RSPAMD_TASK_IS_EMPTY (example_task {} ''From '') \<and>
   mbox_handling (example_task {} ''From '') \<and>
   take 5 (dropWhile g_ascii_isspace (msg (example_task {} ''From ''))) = ''From '' \<and>
   dropWhile g_ascii_isspace (dropWhile (\<lambda>c. c \<noteq> CHR 0x0A)
     (drop 5 (dropWhile g_ascii_isspace (msg (example_task {} ''From ''))))) = [] \<and>
   msg (fst (rspamd_message_parse example_env (example_task {} ''From ''))) = ''From ''"
proof -
  have ne: "\<not> RSPAMD_TASK_IS_EMPTY (example_task {} ''From '')"
    by (simp add: RSPAMD_TASK_IS_EMPTY_def)
  show ?thesis
    using ne rspamd_message_parse_msg [OF ne, of example_env]
    by (simp add: mbox_handling_def trimmed_message_def g_ascii_isspace_def)
qed

text \<open>
  An instance: a task flagged as MIME whose message is a space, the line of a mailbox
  and a message that the example parser accepts.
\<close>

theorem rspamd_message_parse_trims_witness:
  "\<not> RSPAMD_TASK_IS_EMPTY (example_task {RSPAMD_TASK_FLAG_MIME} example_mbox_message) \<and>
   RSPAMD_TASK_FLAG_MIME \<in> task_flags (example_task {RSPAMD_TASK_FLAG_MIME} example_mbox_message) \<and>
   trimmed_message (mbox_handling (example_task {RSPAMD_TASK_FLAG_MIME} example_mbox_message))
     (msg (example_task {RSPAMD_TASK_FLAG_MIME} example_mbox_message)) =
     example_header @ ''hello world'' \<and>
   msg (fst (rspamd_message_parse example_env
     (example_task {RSPAMD_TASK_FLAG_MIME} example_mbox_message))) =
     example_header @ ''hello world'' \<and>
   snd (rspamd_message_parse example_env
     (example_task {RSPAMD_TASK_FLAG_MIME} example_mbox_message))"
proof -
  let ?task = "example_task {RSPAMD_TASK_FLAG_MIME} example_mbox_message"
  have ne: "\<not> RSPAMD_TASK_IS_EMPTY ?task"
    by (simp add: RSPAMD_TASK_IS_EMPTY_def)
  have mime: "RSPAMD_TASK_FLAG_MIME \<in> task_flags ?task"
    by simp
  have tm: "trimmed_message (mbox_handling ?task) (msg ?task) = example_header @ ''hello world''"
    by (simp add: mbox_handling_def trimmed_message_def g_ascii_isspace_def
        example_mbox_message_def example_message_def example_header_def)
  from rspamd_message_parse_trims [OF ne] obtain given where
    given: "msg given = trimmed_message (mbox_handling ?task) (msg ?task)"
    and parse: "\<And>env. msg (fst (rspamd_message_parse env ?task)) =
                    trimmed_message (mbox_handling ?task) (msg ?task) \<and>
                  (RSPAMD_TASK_FLAG_MIME \<in> task_flags ?task \<longrightarrow>
                     (snd (rspamd_message_parse env ?task) \<longleftrightarrow>
                        mp_ok (rspamd_mime_parse_task env given) \<or> \<not> forbids_raw_input ?task) \<and>
                     raw_headers (fst (rspamd_message_parse env ?task)) =
                       mp_headers (rspamd_mime_parse_task env given))"
    by blast
  have "rspamd_mime_parse_task example_env given = example_mime_parse given"
    by (simp add: example_env_def)
  then have ok: "mp_ok (rspamd_mime_parse_task example_env given)"
    using given tm by (simp add: example_mime_parse_def)
  from parse [of example_env] mime ok tm ne show ?thesis
    by simp
qed

subsection \<open>The result of the orchestrator\<close>

text \<open>
  C6. The orchestrator returns \<^verbatim>\<open>FALSE\<close> exactly when the task is not empty and is
  flagged as MIME, the MIME parser fails on it, and the task has a configuration that
  does not allow raw input; in every other case it returns \<^verbatim>\<open>TRUE\<close>. When it
  returns \<^verbatim>\<open>FALSE\<close>, the error of the task is the error that the parser has set, if
  it has set one.
\<close>

theorem rspamd_message_parse_result:
  "(snd (rspamd_message_parse env task) = False \<longleftrightarrow>
      \<not> RSPAMD_TASK_IS_EMPTY task \<and> RSPAMD_TASK_FLAG_MIME \<in> task_flags task \<and>
      \<not> mp_ok (mime_result env task) \<and> forbids_raw_input task) \<and>
   (snd (rspamd_message_parse env task) = False \<longrightarrow>
      err (fst (rspamd_message_parse env task)) =
        (case mp_err (mime_result env task) of Some e \<Rightarrow> Some e | None \<Rightarrow> err task))"
proof -
  have result: "snd (rspamd_message_parse env task) = False \<longleftrightarrow>
      \<not> RSPAMD_TASK_IS_EMPTY task \<and> RSPAMD_TASK_FLAG_MIME \<in> task_flags task \<and>
      \<not> mp_ok (mime_result env task) \<and> forbids_raw_input task"
    by (auto simp: rspamd_message_parse_snd construct_mime_result)
  have "err (fst (rspamd_message_parse env task)) =
        (case mp_err (mime_result env task) of Some e \<Rightarrow> Some e | None \<Rightarrow> err task)"
    if failed: "snd (rspamd_message_parse env task) = False"
  proof -
    from failed have ne: "\<not> RSPAMD_TASK_IS_EMPTY task"
      and stop: "\<not> snd (construct_mime env (skip_mbox_envelope task))"
      by (simp_all add: rspamd_message_parse_snd)
    from rspamd_message_parse_same_message [OF ne, of env] stop
    have "err (fst (rspamd_message_parse env task)) =
            err (fst (construct_mime env (skip_mbox_envelope task)))"
      by (simp add: same_message_def)
    with construct_mime_err [OF stop] show ?thesis
      by simp
  qed
  with result show ?thesis
    by blast
qed

lemma example_mime_result_garbage:
  "mime_result example_env (example_task {RSPAMD_TASK_FLAG_MIME} ''garbage'') =
     \<lparr>mp_ok = False, mp_err = Some ''cannot find headers'', mp_parts = [],
      mp_headers = Map.empty\<rparr>"
  by (simp add: mime_result_def example_env_def example_mime_parse_def example_header_def
      skip_mbox_envelope_def g_ascii_isspace_def Let_def)

text \<open>
  An instance: the example parser fails on the message \<^verbatim>\<open>garbage\<close>, and the
  example configuration does not allow raw input.
\<close>

theorem rspamd_message_parse_result_witness:
  "\<not> RSPAMD_TASK_IS_EMPTY (example_task {RSPAMD_TASK_FLAG_MIME} ''garbage'') \<and>
   RSPAMD_TASK_FLAG_MIME \<in> task_flags (example_task {RSPAMD_TASK_FLAG_MIME} ''garbage'') \<and>
   \<not> mp_ok (mime_result example_env (example_task {RSPAMD_TASK_FLAG_MIME} ''garbage'')) \<and>
   forbids_raw_input (example_task {RSPAMD_TASK_FLAG_MIME} ''garbage'') \<and>
   snd (rspamd_message_parse example_env (example_task {RSPAMD_TASK_FLAG_MIME} ''garbage'')) =
     False \<and>
   err (fst (rspamd_message_parse example_env
     (example_task {RSPAMD_TASK_FLAG_MIME} ''garbage''))) = Some ''cannot find headers''"
proof -
  let ?task = "example_task {RSPAMD_TASK_FLAG_MIME} ''garbage''"
  have h: "\<not> RSPAMD_TASK_IS_EMPTY ?task \<and> RSPAMD_TASK_FLAG_MIME \<in> task_flags ?task \<and>
           \<not> mp_ok (mime_result example_env ?task) \<and> forbids_raw_input ?task"
    by (simp add: RSPAMD_TASK_IS_EMPTY_def example_mime_result_garbage forbids_raw_input_def
        example_config_def)
  with rspamd_message_parse_result [of example_env ?task] show ?thesis
    by (simp add: example_mime_result_garbage)
qed

subsection \<open>The message id\<close>

lemma strip_message_id_brackets: "strip_message_id (CHR ''<'' # s @ [CHR ''>'']) = s"
  by (simp add: strip_message_id_def)

lemma strip_message_id_plain:
  "s = [] \<or> hd s \<noteq> CHR ''<'' \<Longrightarrow> strip_message_id s = s"
  by (cases s) (auto simp: strip_message_id_def)

lemma save_message_id_message_id:
  "message_id (save_message_id t) =
     (case raw_headers t ''Message-ID'' of
        Some hdrs \<Rightarrow> Some (strip_message_id (hdr_decoded (hdrs ! 0)))
      | None \<Rightarrow> (case message_id t of Some m \<Rightarrow> Some m | None \<Rightarrow> Some ''undef''))"
  by (simp add: save_message_id_def Let_def split: option.splits)

lemma rspamd_message_parse_message_id:
  assumes "\<not> RSPAMD_TASK_IS_EMPTY t" and "snd (rspamd_message_parse env t)"
  shows "message_id (fst (rspamd_message_parse env t)) =
     (case headers_after_parse env t ''Message-ID'' of
        Some hdrs \<Rightarrow> Some (strip_message_id (hdr_decoded (hdrs ! 0)))
      | None \<Rightarrow>
          if made_from_data env t
          then Some (rspamd_mime_message_id_generate env ''localhost.localdomain'')
          else (case message_id t of Some m \<Rightarrow> Some m | None \<Rightarrow> Some ''undef''))"
proof -
  from assms have ok: "snd (construct_mime env (skip_mbox_envelope t))"
    by (simp add: rspamd_message_parse_snd)
  from rspamd_message_parse_same_message [OF assms(1), of env] ok
  have "message_id (fst (rspamd_message_parse env t)) =
          message_id (save_message_id (fst (construct_mime env (skip_mbox_envelope t))))"
    by (simp add: same_message_def)
  then show ?thesis
    by (simp add: save_message_id_message_id construct_mime_headers
        construct_mime_message_id [OF ok] split: option.splits)
qed

text \<open>
  C7, as amended. After a successful parse of a task that is not empty the message id
  is set. When there are \<^verbatim>\<open>Message-ID\<close> headers it is the decoded value of the
  first, without a leading \<^verbatim>\<open><\<close> and, if that was there, without a closing
  \<^verbatim>\<open>>\<close>: a value in angle brackets gives what is between them. When there are none,
  it is the id generated for a task that is made from raw data, and else the id that the
  task had before or, if it had none, \<^verbatim>\<open>undef\<close>.
\<close>

theorem rspamd_message_parse_sets_message_id:
  assumes "\<not> RSPAMD_TASK_IS_EMPTY task" and "snd (rspamd_message_parse env task)"
  shows "message_id (fst (rspamd_message_parse env task)) \<noteq> None \<and>
         (\<forall>rh rest. headers_after_parse env task ''Message-ID'' = Some (rh # rest) \<longrightarrow>
            message_id (fst (rspamd_message_parse env task)) =
              Some (strip_message_id (hdr_decoded rh)) \<and>
            (\<forall>s. hdr_decoded rh = CHR ''<'' # s @ [CHR ''>''] \<longrightarrow>
               message_id (fst (rspamd_message_parse env task)) = Some s)) \<and>
         (headers_after_parse env task ''Message-ID'' = None \<longrightarrow>
            message_id (fst (rspamd_message_parse env task)) =
              (if made_from_data env task
               then Some (rspamd_mime_message_id_generate env ''localhost.localdomain'')
               else (case message_id task of Some m \<Rightarrow> Some m | None \<Rightarrow> Some ''undef'')))"
  using rspamd_message_parse_message_id [OF assms]
  by (auto simp: strip_message_id_brackets split: option.splits)

lemma example_mime_result_message:
  "mime_result example_env
     (example_task {RSPAMD_TASK_FLAG_MIME} example_message) =
     \<lparr>mp_ok = True, mp_err = None,
      mp_parts = [example_mime_part (example_text_ct ''plain'') None ''hello world''],
      mp_headers = [''Message-ID'' \<mapsto>
                      [\<lparr>hdr_name = ''Message-ID'', hdr_value = ''<1@example.org>'',
                        hdr_decoded = ''<1@example.org>''\<rparr>]]\<rparr>"
  by (simp add: mime_result_def example_env_def example_mime_parse_def example_header_def
      example_message_def skip_mbox_envelope_def g_ascii_isspace_def Let_def)

lemma example_message_id_generate:
  "rspamd_mime_message_id_generate example_env fqdn = ''0123456789abcdef@'' @ fqdn"
  by (simp add: example_env_def)

text \<open>
  C7 as it is stated fails: a task that is not flagged as MIME and has no header gets
  the generated message id, not \<^verbatim>\<open>undef\<close>; and an empty task without a message
  id is returned as it is, with success.
\<close>

theorem rspamd_message_parse_generated_message_id:
  "snd (rspamd_message_parse example_env (example_task {} ''hello'')) \<and>
   headers_after_parse example_env (example_task {} ''hello'') ''Message-ID'' = None \<and>
   message_id (fst (rspamd_message_parse example_env (example_task {} ''hello''))) =
     Some ''0123456789abcdef@localhost.localdomain'' \<and>
   snd (rspamd_message_parse example_env (example_task {RSPAMD_TASK_FLAG_EMPTY} [])) \<and>
   message_id (fst (rspamd_message_parse example_env (example_task {RSPAMD_TASK_FLAG_EMPTY} [])))
     = None"
proof -
  have ne: "\<not> RSPAMD_TASK_IS_EMPTY (example_task {} ''hello'')"
    by (simp add: RSPAMD_TASK_IS_EMPTY_def)
  have ok: "snd (rspamd_message_parse example_env (example_task {} ''hello''))"
    by (simp add: rspamd_message_parse_snd construct_mime_result)
  have hdrs: "headers_after_parse example_env (example_task {} ''hello'') ''Message-ID'' = None"
    by (simp add: headers_after_parse_def)
  have "message_id (fst (rspamd_message_parse example_env (example_task {} ''hello''))) =
          Some ''0123456789abcdef@localhost.localdomain''"
    using rspamd_message_parse_message_id [OF ne ok]
    by (simp add: hdrs made_from_data_def example_message_id_generate)
  moreover have "rspamd_message_parse example_env (example_task {RSPAMD_TASK_FLAG_EMPTY} []) =
                   (example_task {RSPAMD_TASK_FLAG_EMPTY} [], True)"
    by (simp add: rspamd_message_parse_def RSPAMD_TASK_IS_EMPTY_def)
  ultimately show ?thesis
    using ok hdrs by simp
qed

theorem rspamd_message_parse_sets_message_id_witness:
  "\<not> RSPAMD_TASK_IS_EMPTY
       (example_task {RSPAMD_TASK_FLAG_MIME} example_message) \<and>
   snd (rspamd_message_parse example_env
       (example_task {RSPAMD_TASK_FLAG_MIME} example_message)) \<and>
   message_id (fst (rspamd_message_parse example_env
       (example_task {RSPAMD_TASK_FLAG_MIME} example_message))) =
     Some ''1@example.org''"
proof -
  let ?task = "example_task {RSPAMD_TASK_FLAG_MIME} example_message"
  have ne: "\<not> RSPAMD_TASK_IS_EMPTY ?task"
    by (simp add: RSPAMD_TASK_IS_EMPTY_def)
  have ok: "snd (rspamd_message_parse example_env ?task)"
    by (simp add: rspamd_message_parse_snd construct_mime_result example_mime_result_message)
  have hdrs: "headers_after_parse example_env ?task ''Message-ID'' =
                Some [\<lparr>hdr_name = ''Message-ID'', hdr_value = ''<1@example.org>'',
                       hdr_decoded = ''<1@example.org>''\<rparr>]"
    by (simp add: headers_after_parse_def example_mime_result_message)
  have dec: "hdr_decoded \<lparr>hdr_name = ''Message-ID'', hdr_value = ''<1@example.org>'',
                          hdr_decoded = ''<1@example.org>''\<rparr> =
               CHR ''<'' # ''1@example.org'' @ [CHR ''>'']"
    by simp
  from rspamd_message_parse_sets_message_id [OF ne ok] hdrs dec ne ok show ?thesis
    by blast
qed

end
